theory Spec2Isabelle
  imports Main "HOL-Library.Sublist"
begin

section \<open>JavaScript values\<close>

text \<open>
  The feeds deliver parsed JSON, and \<^verbatim>\<open>wmata.ts\<close> reads it untyped. A value is
  therefore one of JavaScript's: \<^verbatim>\<open>undefined\<close>, \<^verbatim>\<open>null\<close>, a boolean, a
  number, a string, an array or an object (its own properties, first binding of a key is
  the property). The code never computes with a number, it only tests one for truthiness
  and prints it into a URL, so numbers are integers here.
\<close>

datatype jsval =
    JUndefined
  | JNull
  | JBool bool
  | JNum int
  | JStr string
  | JArr "jsval list"
  | JObj "(string \<times> jsval) list"

text \<open>
  What a \<^verbatim>\<open>throw\<close> carries: the two errors of the language that the module can
  raise, the failure of a request or of the parse of its body, and an exception of a
  helper. Every handler of the module ignores which one it is.
\<close>

datatype exn = TypeError | ReferenceError | FetchError | UtilError

text \<open>
  Property read \<^verbatim>\<open>v.k\<close> for the data properties the module reads (\<^verbatim>\<open>Code\<close>,
  \<^verbatim>\<open>Name\<close>, \<^verbatim>\<open>Trains\<close>, ...): a TypeError on \<^verbatim>\<open>undefined\<close> and
  \<^verbatim>\<open>null\<close>, the property or \<^verbatim>\<open>undefined\<close> on an object, \<^verbatim>\<open>undefined\<close>
  on every other value (no prototype carries one of these names).
\<close>

fun getProp :: "jsval \<Rightarrow> string \<Rightarrow> exn + jsval" where
  "getProp JUndefined k = Inl TypeError"
| "getProp JNull k = Inl TypeError"
| "getProp (JObj kvs) k = (case map_of kvs k of None \<Rightarrow> Inr JUndefined | Some v \<Rightarrow> Inr v)"
| "getProp v k = Inr JUndefined"

text \<open>ToBoolean, as \<^verbatim>\<open>if (v)\<close> and \<^verbatim>\<open>!v\<close> apply it.\<close>

fun truthy :: "jsval \<Rightarrow> bool" where
  "truthy JUndefined = False"
| "truthy JNull = False"
| "truthy (JBool b) = b"
| "truthy (JNum n) = (n \<noteq> 0)"
| "truthy (JStr s) = (s \<noteq> [])"
| "truthy (JArr xs) = True"
| "truthy (JObj kvs) = True"

text \<open>Decimal digits of a natural number, most significant first.\<close>

fun showNat :: "nat \<Rightarrow> string" where
  "showNat n =
     (if n < 10 then [char_of (48 + n)]
      else showNat (n div 10) @ [char_of (48 + n mod 10)])"

declare showNat.simps [simp del]

fun joinWith :: "string \<Rightarrow> string list \<Rightarrow> string" where
  "joinWith d [] = []"
| "joinWith d [x] = x"
| "joinWith d (x # y # ys) = x @ d @ joinWith d (y # ys)"

text \<open>
  ToString, as a template literal \<^verbatim>\<open>`${v}`\<close> applies it: an array prints its
  elements joined by commas, with \<^verbatim>\<open>undefined\<close> and \<^verbatim>\<open>null\<close> elements
  empty. A number prints as the decimal digits of the integer. JavaScript's numbers
  are doubles: from \<open>10^21\<close> on they print with an exponent, above \<open>2^53\<close> they
  are rounded, and they can have a fraction; the model has none of this. The string of
  a number is used in one place, the prediction URL of a station whose \<^verbatim>\<open>Code\<close> or
  \<^verbatim>\<open>StationTogether1\<close> is a number.
\<close>

fun toStr :: "jsval \<Rightarrow> string" where
  "toStr JUndefined = ''undefined''"
| "toStr JNull = ''null''"
| "toStr (JBool b) = (if b then ''true'' else ''false'')"
| "toStr (JNum n) = (if n < 0 then ''-'' @ showNat (nat (- n)) else showNat (nat n))"
| "toStr (JStr s) = s"
| "toStr (JArr xs) =
     joinWith '','' (map (\<lambda>x. if x = JUndefined \<or> x = JNull then [] else toStr x) xs)"
| "toStr (JObj kvs) = ''[object Object]''"

text \<open>
  \<^verbatim>\<open>String.prototype.toLowerCase\<close> on the ASCII letters; a string is a list of
  8-bit characters here, and bytes outside \<^verbatim>\<open>A-Z\<close> are kept. JavaScript also
  lowers the letters outside ASCII, which the model does not: for a station name with
  such a letter the query handed to the two searches is not the one the code hands
  them.
\<close>

definition lowerChar :: "char \<Rightarrow> char" where
  "lowerChar c =
     (if 65 \<le> (of_char c :: nat) \<and> (of_char c :: nat) \<le> 90
      then char_of ((of_char c :: nat) + 32) else c)"

definition toLowerCase :: "string \<Rightarrow> string" where
  "toLowerCase s = map lowerChar s"

section \<open>Effects: fetches, helper calls, exceptions\<close>

text \<open>
  An \<^verbatim>\<open>async\<close> function of the module is a computation over the log of what it
  has done so far: every \<^verbatim>\<open>fetch\<close> and every call of a helper imported from
  \<^verbatim>\<open>./util\<close> appends an event. It ends in a value (\<open>Inr\<close>) or in a thrown
  exception (\<open>Inl\<close>), a rejected promise when it leaves the function.
\<close>

datatype event = Fetched string | Called string "jsval list"

type_synonym 'a js = "event list \<Rightarrow> (exn + 'a) \<times> event list"

definition ret :: "'a \<Rightarrow> 'a js" where
  "ret x = (\<lambda>l. (Inr x, l))"

definition lift :: "exn + 'a \<Rightarrow> 'a js" where
  "lift r = (\<lambda>l. (r, l))"

definition andThen :: "'a js \<Rightarrow> ('a \<Rightarrow> 'b js) \<Rightarrow> 'b js" where
  "andThen m f =
     (\<lambda>l. case m l of (Inl e, l') \<Rightarrow> (Inl e, l') | (Inr x, l') \<Rightarrow> f x l')"

text \<open>\<^verbatim>\<open>try { m } catch (error) { h error }\<close>\<close>

definition tryCatch :: "'a js \<Rightarrow> (exn \<Rightarrow> 'a js) \<Rightarrow> 'a js" where
  "tryCatch m h =
     (\<lambda>l. case m l of (Inl e, l') \<Rightarrow> h e l' | (Inr x, l') \<Rightarrow> (Inr x, l'))"

text \<open>
  The runtime the module is loaded in. \<open>feed\<close> is the transit authority's API:
  \<open>feed l url\<close> is what \<^verbatim>\<open>await (await fetch(url)).json()\<close> gives after the
  events \<open>l\<close>, the parsed body or the exception of a failed request or parse.
  \<open>wmataApiKey\<close> is \<^verbatim>\<open>functions.config().metro.apikey\<close>. \<open>globalThis\<close> is the
  global object, where an identifier that the module does not bind is looked up.
\<close>

record host =
  feed :: "event list \<Rightarrow> string \<Rightarrow> exn + jsval"
  wmataApiKey :: string
  globalThis :: "string \<rightharpoonup> (jsval list \<Rightarrow> exn + jsval)"

text \<open>
  The bindings imported from \<^verbatim>\<open>./util\<close>, a file that is not part of the sources at
  hand: the four helpers, pure functions that may throw, and the two members of
  \<^verbatim>\<open>serviceTypeEnum\<close> that the module reads.
\<close>

record util =
  stationFuzzySearch :: "jsval \<Rightarrow> jsval \<Rightarrow> exn + jsval"
  stationPartialSearch :: "jsval \<Rightarrow> jsval \<Rightarrow> exn + jsval"
  getRelevantIncidents :: "jsval \<Rightarrow> jsval \<Rightarrow> exn + jsval"
  sortPredictions :: "jsval \<Rightarrow> exn + jsval"
  serviceTypeEnum_TRAIN :: string
  serviceTypeEnum_BUS :: string

definition fetchJson :: "host \<Rightarrow> string \<Rightarrow> jsval js" where
  "fetchJson h url = (\<lambda>l. (feed h l url, l @ [Fetched url]))"

definition callUtil :: "string \<Rightarrow> jsval list \<Rightarrow> exn + jsval \<Rightarrow> jsval js" where
  "callUtil name args r = (\<lambda>l. (r, l @ [Called name args]))"

text \<open>
  A call \<^verbatim>\<open>name(args)\<close> of an identifier that no import and no declaration of the
  module binds: it resolves on the global object, and throws a ReferenceError when the
  global object has no such property.
\<close>

definition callGlobal :: "host \<Rightarrow> string \<Rightarrow> jsval list \<Rightarrow> jsval js" where
  "callGlobal h name args =
     (case globalThis h name of
        None \<Rightarrow> lift (Inl ReferenceError)
      | Some f \<Rightarrow> callUtil name args (f args))"

section \<open>wmata.ts\<close>

definition rootUrl :: string where
  "rootUrl = ''https://api.wmata.com''"

text \<open>\<^verbatim>\<open>fetchIncidents\<close>, lines 19-36.\<close>

definition incidentsUrl :: "host \<Rightarrow> string \<Rightarrow> string" where
  "incidentsUrl h transport =
     rootUrl @ ''/Incidents.svc/json/'' @
     (if transport = ''train'' then ''Incidents''
      else if transport = ''bus'' then ''BusIncidents''
      else '''') @
     ''?api_key='' @ wmataApiKey h"

definition fetchIncidents :: "host \<Rightarrow> string \<Rightarrow> jsval js" where
  "fetchIncidents h transport =
     tryCatch (fetchJson h (incidentsUrl h transport)) (\<lambda>error. ret (JArr []))"

text \<open>Sequencing of pure steps that may throw.\<close>

definition bindE :: "exn + 'a \<Rightarrow> ('a \<Rightarrow> exn + 'b) \<Rightarrow> exn + 'b" where
  "bindE r f = (case r of Inl e \<Rightarrow> Inl e | Inr x \<Rightarrow> f x)"

text \<open>
  \<^verbatim>\<open>Array.prototype.filter\<close>: the callback runs on every element in order, and an
  exception of the callback ends the call. On a value that is no array there is no such
  method, and the call throws.
\<close>

fun filterE :: "('a \<Rightarrow> exn + bool) \<Rightarrow> 'a list \<Rightarrow> exn + 'a list" where
  "filterE p [] = Inr []"
| "filterE p (x # xs) =
     bindE (p x) (\<lambda>b. bindE (filterE p xs) (\<lambda>ys. Inr (if b then x # ys else ys)))"

definition arrayFilter :: "jsval \<Rightarrow> (jsval \<Rightarrow> exn + bool) \<Rightarrow> exn + jsval" where
  "arrayFilter v p =
     (case v of
        JArr xs \<Rightarrow> bindE (filterE p xs) (\<lambda>ys. Inr (JArr ys))
      | _ \<Rightarrow> Inl TypeError)"

text \<open>
  \<^verbatim>\<open>v.concat(w)\<close>: on an array, the elements of \<^verbatim>\<open>w\<close> are appended when
  \<^verbatim>\<open>w\<close> is an array, and \<^verbatim>\<open>w\<close> itself otherwise; on a string, the string
  of \<^verbatim>\<open>w\<close> is appended; no other value has the method.
\<close>

definition concatJs :: "jsval \<Rightarrow> jsval \<Rightarrow> exn + jsval" where
  "concatJs v w =
     (case v of
        JArr xs \<Rightarrow> Inr (JArr (xs @ (case w of JArr ys \<Rightarrow> ys | _ \<Rightarrow> [w])))
      | JStr s \<Rightarrow> Inr (JStr (s @ toStr w))
      | _ \<Rightarrow> Inl TypeError)"

text \<open>
  \<^verbatim>\<open>fetchTrainTimetable\<close>, lines 54-59: the station name is lower-cased,
  \<^verbatim>\<open>stationPartialSearch\<close> is called, and \<^verbatim>\<open>stationFuzzySearch\<close> when its
  result is falsy. The value is \<^verbatim>\<open>stationData\<close>.
\<close>

definition resolveStation :: "util \<Rightarrow> string \<Rightarrow> jsval \<Rightarrow> jsval js" where
  "resolveStation u station stations =
     (let stationName = JStr (toLowerCase station) in
      andThen (callUtil ''stationPartialSearch'' [stationName, stations]
                 (stationPartialSearch u stationName stations))
        (\<lambda>stationData.
           if \<not> truthy stationData
           then callUtil ''stationFuzzySearch'' [stationName, stations]
                  (stationFuzzySearch u stationName stations)
           else ret stationData))"

definition predictionUrl :: "host \<Rightarrow> jsval \<Rightarrow> string" where
  "predictionUrl h code =
     rootUrl @ ''/StationPrediction.svc/json/GetPrediction/'' @ toStr code @
     ''?api_key='' @ wmataApiKey h"

text \<open>
  Lines 71-87, the branch of a station with a second platform: the second platform's
  predictions are fetched, \<^verbatim>\<open>predictionObj.Trains\<close> is concatenated with them,
  sorted by \<^verbatim>\<open>sortPredictions\<close> and stored back. The value is what
  \<^verbatim>\<open>predictionObj.Trains\<close> reads afterwards (the store succeeds: the concatenation
  has thrown already unless \<^verbatim>\<open>predictionObj\<close> is an object).
\<close>

definition mergeMulti :: "util \<Rightarrow> host \<Rightarrow> jsval \<Rightarrow> jsval \<Rightarrow> jsval js" where
  "mergeMulti u h predictionObj stationTogether1 =
     andThen (fetchJson h (predictionUrl h stationTogether1)) (\<lambda>predictionObjMulti.
     andThen (lift (getProp predictionObj ''Trains'')) (\<lambda>trains.
     andThen (lift (getProp predictionObjMulti ''Trains'')) (\<lambda>trainsMulti.
     andThen (lift (concatJs trains trainsMulti)) (\<lambda>both.
     callUtil ''sortPredictions'' [both] (sortPredictions u both)))))"

text \<open>Lines 91-96, the callback of the filter and the filter.\<close>

definition keepPrediction :: "jsval \<Rightarrow> exn + bool" where
  "keepPrediction item =
     bindE (getProp item ''Line'') (\<lambda>line.
       if line \<noteq> JStr ''None'' \<and> line \<noteq> JStr ''No''
       then bindE (getProp item ''Destination'') (\<lambda>destination.
              Inr (destination \<noteq> JStr ''ssenger'' \<and> destination \<noteq> JStr ''Train''))
       else Inr False)"

definition predictionData :: "jsval \<Rightarrow> exn + jsval" where
  "predictionData trains = arrayFilter trains keepPrediction"

text \<open>
  Lines 101-117. Each of the four blocks tests one key against \<^verbatim>\<open>null\<close> and
  pushes the value of a key; the second block tests \<^verbatim>\<open>LineCode2\<close> and pushes
  \<^verbatim>\<open>lineCode2\<close>.
\<close>

definition pushLine :: "jsval \<Rightarrow> string \<Rightarrow> string \<Rightarrow> jsval list \<Rightarrow> exn + jsval list" where
  "pushLine stationData tested pushed lines =
     bindE (getProp stationData tested) (\<lambda>c.
       if c \<noteq> JNull
       then bindE (getProp stationData pushed) (\<lambda>v. Inr (lines @ [v]))
       else Inr lines)"

definition lineCodes :: "jsval \<Rightarrow> exn + jsval list" where
  "lineCodes stationData =
     bindE (pushLine stationData ''LineCode1'' ''LineCode1'' []) (\<lambda>lines1.
     bindE (pushLine stationData ''LineCode2'' ''lineCode2'' lines1) (\<lambda>lines2.
     bindE (pushLine stationData ''LineCode3'' ''LineCode3'' lines2) (\<lambda>lines3.
     pushLine stationData ''LineCode4'' ''LineCode4'' lines3)))"

text \<open>Lines 61-126, the branch of a station that was found.\<close>

definition stationTimetable :: "util \<Rightarrow> host \<Rightarrow> jsval \<Rightarrow> jsval js" where
  "stationTimetable u h stationData =
     andThen (lift (getProp stationData ''Code'')) (\<lambda>code.
     andThen (fetchJson h (predictionUrl h code)) (\<lambda>predictionObj.
     andThen (lift (getProp stationData ''StationTogether1'')) (\<lambda>stationTogether1.
     andThen (if truthy stationTogether1
              then mergeMulti u h predictionObj stationTogether1
              else lift (getProp predictionObj ''Trains'')) (\<lambda>trains.
     andThen (lift (predictionData trains)) (\<lambda>predictions.
     andThen (lift (lineCodes stationData)) (\<lambda>lines.
     andThen (fetchIncidents h (serviceTypeEnum_TRAIN u)) (\<lambda>incidentData.
     andThen (callUtil ''getRelevantIncidents'' [JArr lines, incidentData]
                (getRelevantIncidents u (JArr lines) incidentData)) (\<lambda>incidents.
     andThen (lift (getProp stationData ''Name'')) (\<lambda>name.
     ret (JObj [(''stationName'', name), (''predictions'', predictions),
                (''incidents'', incidents)]))))))))))"

text \<open>
  Lines 62-96 on their own: the part of the branch that ends in the filtered
  predictions, for a station of one platform or of two. \<open>stationTimetable\<close> is this
  part followed by lines 101-126.
\<close>

definition stationPredictions :: "util \<Rightarrow> host \<Rightarrow> jsval \<Rightarrow> jsval js" where
  "stationPredictions u h stationData =
     andThen (lift (getProp stationData ''Code'')) (\<lambda>code.
     andThen (fetchJson h (predictionUrl h code)) (\<lambda>predictionObj.
     andThen (lift (getProp stationData ''StationTogether1'')) (\<lambda>stationTogether1.
     andThen (if truthy stationTogether1
              then mergeMulti u h predictionObj stationTogether1
              else lift (getProp predictionObj ''Trains'')) (\<lambda>trains.
     lift (predictionData trains)))))"

definition stationsUrl :: "host \<Rightarrow> string" where
  "stationsUrl h = rootUrl @ ''/Rail.svc/json/jStations?api_key='' @ wmataApiKey h"

text \<open>\<^verbatim>\<open>fetchTrainTimetable\<close>, lines 43-133.\<close>

definition fetchTrainTimetable :: "util \<Rightarrow> host \<Rightarrow> string \<Rightarrow> jsval js" where
  "fetchTrainTimetable u h station =
     tryCatch
       (andThen (fetchJson h (stationsUrl h)) (\<lambda>stations.
        andThen (resolveStation u station stations) (\<lambda>stationData.
          if truthy stationData then stationTimetable u h stationData
          else ret JNull)))
       (\<lambda>error. ret (JArr []))"

text \<open>
  Line 143, \<^verbatim>\<open>stop.replace(/\D/g, '')\<close>: every character outside \<^verbatim>\<open>0-9\<close>
  is replaced by nothing.
\<close>

definition nonDigit :: "char \<Rightarrow> bool" where
  "nonDigit c = ((of_char c :: nat) < 48 \<or> 57 < (of_char c :: nat))"

fun sanitizedStopId :: "string \<Rightarrow> string" where
  "sanitizedStopId [] = []"
| "sanitizedStopId (c # cs) =
     (if nonDigit c then sanitizedStopId cs else c # sanitizedStopId cs)"

definition busPredictionUrl :: "host \<Rightarrow> string \<Rightarrow> string" where
  "busPredictionUrl h stopId =
     rootUrl @ ''/NextBusService.svc/json/jPredictions?StopID='' @ stopId @
     ''&api_key='' @ wmataApiKey h"

text \<open>
  \<^verbatim>\<open>fetchBusTimetable\<close>, lines 140-165. \<^verbatim>\<open>getRelevantBusIncidents\<close> is
  neither imported nor declared in the module.
\<close>

definition fetchBusTimetable :: "util \<Rightarrow> host \<Rightarrow> string \<Rightarrow> jsval js" where
  "fetchBusTimetable u h stop =
     tryCatch
       (andThen (fetchJson h (busPredictionUrl h (sanitizedStopId stop))) (\<lambda>predictionObj.
        andThen (fetchIncidents h (serviceTypeEnum_BUS u)) (\<lambda>incidentData.
        andThen (callGlobal h ''getRelevantBusIncidents'' []) (\<lambda>incidents.
        andThen (lift (getProp predictionObj ''StopName'')) (\<lambda>stopName.
        andThen (lift (getProp predictionObj ''Predictions'')) (\<lambda>predictions.
        ret (JObj [(''stopName'', stopName), (''predictions'', predictions),
                   (''incidents'', incidents)])))))))
       (\<lambda>error. ret (JArr []))"

section \<open>The helpers of util.ts, from the specification\<close>

text \<open>\<^verbatim>\<open>s.includes(t)\<close>: \<open>t\<close> occurs in \<open>s\<close> as a contiguous run.\<close>

fun includesStr :: "string \<Rightarrow> string \<Rightarrow> bool" where
  "includesStr [] t = (t = [])"
| "includesStr (c # cs) t = (prefix t (c # cs) \<or> includesStr cs t)"

text \<open>
  Modelled from the spec: \<^verbatim>\<open>stationPartialSearch\<close> of \<^verbatim>\<open>util.ts\<close>, which is not
  among the sources. Specification 4.1: partial search "returns the first StationRecord
  whose name, case-insensitively, contains the query as a substring, or whose query
  contains the name as a substring", first match in reference-data order, and not-found
  (never a throw) otherwise. The query arrives lower-cased (line 54 of
  \<^verbatim>\<open>wmata.ts\<close>); not-found is \<^verbatim>\<open>undefined\<close>.
\<close>

definition nameMatches :: "string \<Rightarrow> jsval \<Rightarrow> bool" where
  "nameMatches query station =
     (case getProp station ''Name'' of
        Inr (JStr name) \<Rightarrow>
          includesStr (toLowerCase name) query \<or> includesStr query (toLowerCase name)
      | _ \<Rightarrow> False)"

definition partialSearch :: "jsval \<Rightarrow> jsval \<Rightarrow> exn + jsval" where
  "partialSearch query stations =
     (case (query, stations) of
        (JStr q, JArr records) \<Rightarrow>
          (case find (nameMatches q) records of
             Some station \<Rightarrow> Inr station
           | None \<Rightarrow> Inr JUndefined)
      | _ \<Rightarrow> Inr JUndefined)"

text \<open>The value of a string of decimal digits; \<open>None\<close> for any other string.\<close>

fun digitsValue :: "nat \<Rightarrow> string \<Rightarrow> nat option" where
  "digitsValue acc [] = Some acc"
| "digitsValue acc (c # cs) =
     (if nonDigit c then None
      else digitsValue (10 * acc + ((of_char c :: nat) - 48)) cs)"

text \<open>
  Modelled from the spec: \<^verbatim>\<open>sortPredictions\<close> of \<^verbatim>\<open>util.ts\<close>, which is not among
  the sources. Specification 4.2: the sort is "ascending by arrival time in minutes",
  the non-numeric minute values "sort before all numeric values, in a fixed relative
  order: boarding-now before arriving-now before any numeric minute value", and "ties at
  equal minute value preserve original relative order (stable sort)". \<open>key\<close> is the
  name of the minutes field of an entry in the feed; \<^verbatim>\<open>BRD\<close> and \<^verbatim>\<open>ARR\<close> are
  the feed's markers of a boarding and of an arriving train. The specification names no
  place for any other non-numeric value: it is put between the two markers and the
  numbers.
\<close>

definition minutesRank :: "string \<Rightarrow> jsval \<Rightarrow> nat" where
  "minutesRank key entry =
     (case getProp entry key of
        Inr (JStr m) \<Rightarrow>
          (if m = ''BRD'' then 0
           else if m = ''ARR'' then 1
           else if m = [] then 2
           else (case digitsValue 0 m of Some n \<Rightarrow> 3 + n | None \<Rightarrow> 2))
      | _ \<Rightarrow> 2)"

definition sortSpec :: "string \<Rightarrow> jsval \<Rightarrow> exn + jsval" where
  "sortSpec key predictions =
     (case predictions of
        JArr entries \<Rightarrow> Inr (JArr (sort_key (minutesRank key) entries))
      | _ \<Rightarrow> Inl TypeError)"

text \<open>
  Modelled from the spec: \<^verbatim>\<open>getRelevantIncidents\<close> of \<^verbatim>\<open>util.ts\<close>, which is not
  among the sources. Specification 3 and 4.3: an incident record has an affected-lines
  field, "a delimiter-joined string of codes", and "an incident is relevant if its
  affected-lines field intersects the requested identifier set - i.e., at least one
  requested code appears as one of the joined tokens"; the incidents are returned "in
  the order they appeared in the input feed". \<open>d\<close> is the delimiter.
\<close>

record IncidentRecord =
  linesAffected :: string
  description :: string

fun splitOn :: "char \<Rightarrow> string \<Rightarrow> string list" where
  "splitOn d [] = [[]]"
| "splitOn d (c # cs) =
     (if c = d then [] # splitOn d cs
      else (case splitOn d cs of
              [] \<Rightarrow> [[c]]
            | t # ts \<Rightarrow> (c # t) # ts))"

fun anyRequested :: "string list \<Rightarrow> string list \<Rightarrow> bool" where
  "anyRequested ids [] = False"
| "anyRequested ids (t # ts) = (t \<in> set ids \<or> anyRequested ids ts)"

fun relevant ::
  "char \<Rightarrow> string list \<Rightarrow> 'a IncidentRecord_scheme list \<Rightarrow> 'a IncidentRecord_scheme list"
where
  "relevant d ids [] = []"
| "relevant d ids (i # incidents) =
     (if anyRequested ids (splitOn d (linesAffected i))
      then i # relevant d ids incidents
      else relevant d ids incidents)"

section \<open>Example data\<close>

text \<open>
  The station of the specification's end-to-end example, as a record of the station
  feed, and records with a second platform, with a numeric code and with no line at all.
\<close>

definition metroCenter :: jsval where
  "metroCenter =
     JObj [(''Code'', JStr ''A01''), (''Name'', JStr ''Metro Center''),
           (''StationTogether1'', JNull),
           (''LineCode1'', JStr ''RD''), (''LineCode2'', JStr ''BL''),
           (''LineCode3'', JNull), (''LineCode4'', JNull)]"

definition fortTotten :: jsval where
  "fortTotten =
     JObj [(''Code'', JStr ''B06''), (''Name'', JStr ''Fort Totten''),
           (''StationTogether1'', JStr ''E06''),
           (''LineCode1'', JStr ''RD''), (''LineCode2'', JNull),
           (''LineCode3'', JNull), (''LineCode4'', JNull)]"

definition train :: "string \<Rightarrow> string \<Rightarrow> string \<Rightarrow> jsval" where
  "train line destination minutes =
     JObj [(''Line'', JStr line), (''Destination'', JStr destination),
           (''Min'', JStr minutes)]"

text \<open>
  A util module whose partial search and sort are the specification's, whose fuzzy
  search finds no station, and whose incident filter finds no incident.
\<close>

definition exampleUtil :: util where
  "exampleUtil =
     \<lparr>stationFuzzySearch = (\<lambda>query stations. Inr JUndefined),
      stationPartialSearch = partialSearch,
      getRelevantIncidents = (\<lambda>lines incidents. Inr (JArr [])),
      sortPredictions = sortSpec ''Min'',
      serviceTypeEnum_TRAIN = ''train'',
      serviceTypeEnum_BUS = ''bus''\<rparr>"

text \<open>
  A host whose feed answers by a table from URL to outcome, whatever came before, and
  fails on every other URL; its global object has no property.
\<close>

definition tableHost :: "(string \<times> (exn + jsval)) list \<Rightarrow> host" where
  "tableHost table =
     \<lparr>feed = (\<lambda>l url. case map_of table url of Some r \<Rightarrow> r | None \<Rightarrow> Inl FetchError),
      wmataApiKey = ''k'',
      globalThis = Map.empty\<rparr>"

definition stationsAt :: string where
  "stationsAt = ''https://api.wmata.com/Rail.svc/json/jStations?api_key=k''"

definition predictionAt :: "string \<Rightarrow> string" where
  "predictionAt code =
     ''https://api.wmata.com/StationPrediction.svc/json/GetPrediction/'' @ code @
     ''?api_key=k''"

definition incidentsAt :: string where
  "incidentsAt = ''https://api.wmata.com/Incidents.svc/json/Incidents?api_key=k''"

definition busPredictionAt :: "string \<Rightarrow> string" where
  "busPredictionAt stopId =
     ''https://api.wmata.com/NextBusService.svc/json/jPredictions?StopID='' @ stopId @
     ''&api_key=k''"

definition busIncidentsAt :: string where
  "busIncidentsAt = ''https://api.wmata.com/Incidents.svc/json/BusIncidents?api_key=k''"

section \<open>The log only grows\<close>

text \<open>A computation appends to the log: what was done stays done.\<close>

definition appends :: "'a js \<Rightarrow> bool" where
  "appends m = (\<forall>l. prefix l (snd (m l)))"

section \<open>Basic facts about computations\<close>

lemma appendsD: "appends m \<Longrightarrow> m l = (r, l') \<Longrightarrow> prefix l l'"
  by (metis appends_def snd_conv)

lemma appends_ret: "appends (ret x)"
  by (simp add: appends_def ret_def)

lemma appends_lift: "appends (lift r)"
  by (simp add: appends_def lift_def)

lemma appends_fetchJson: "appends (fetchJson h url)"
  by (simp add: appends_def fetchJson_def)

lemma appends_callUtil: "appends (callUtil name args r)"
  by (simp add: appends_def callUtil_def)

lemma appends_andThen:
  assumes "appends m" and "\<And>x. appends (f x)"
  shows "appends (andThen m f)"
  unfolding appends_def
proof
  fix l
  obtain r l1 where m: "m l = (r, l1)" by (cases "m l")
  then have p: "prefix l l1" using assms(1) appendsD by blast
  show "prefix l (snd (andThen m f l))"
  proof (cases r)
    case (Inl e)
    with m p show ?thesis by (simp add: andThen_def)
  next
    case (Inr x)
    obtain r2 l2 where f: "f x l1 = (r2, l2)" by (cases "f x l1")
    then have "prefix l1 l2" using assms(2) appendsD by blast
    with p have "prefix l l2" by (rule prefix_order.trans)
    with m Inr f show ?thesis by (simp add: andThen_def)
  qed
qed

lemma appends_tryCatch:
  assumes "appends m" and "\<And>e. appends (k e)"
  shows "appends (tryCatch m k)"
  unfolding appends_def
proof
  fix l
  obtain r l1 where m: "m l = (r, l1)" by (cases "m l")
  then have p: "prefix l l1" using assms(1) appendsD by blast
  show "prefix l (snd (tryCatch m k l))"
  proof (cases r)
    case (Inr x)
    with m p show ?thesis by (simp add: tryCatch_def)
  next
    case (Inl e)
    obtain r2 l2 where f: "k e l1 = (r2, l2)" by (cases "k e l1")
    then have "prefix l1 l2" using assms(2) appendsD by blast
    with p have "prefix l l2" by (rule prefix_order.trans)
    with m Inl f show ?thesis by (simp add: tryCatch_def)
  qed
qed

lemma appends_if: "appends a \<Longrightarrow> appends b \<Longrightarrow> appends (if c then a else b)"
  by simp

lemmas appends_intros =
  appends_andThen appends_tryCatch appends_if appends_ret appends_lift appends_fetchJson
  appends_callUtil

lemma appends_fetchIncidents: "appends (fetchIncidents h transport)"
  unfolding fetchIncidents_def by (intro appends_intros)

lemma appends_callGlobal: "appends (callGlobal h name args)"
  unfolding callGlobal_def by (auto split: option.split intro: appends_intros)

lemma appends_resolveStation: "appends (resolveStation u station stations)"
  unfolding resolveStation_def Let_def by (intro appends_intros)

lemma appends_mergeMulti: "appends (mergeMulti u h p t)"
  unfolding mergeMulti_def by (intro appends_intros)

lemma appends_stationTimetable: "appends (stationTimetable u h sd)"
  unfolding stationTimetable_def by (intro appends_intros appends_fetchIncidents appends_mergeMulti)

lemma appends_fetchTrainTimetable: "appends (fetchTrainTimetable u h station)"
  unfolding fetchTrainTimetable_def
  by (intro appends_intros appends_resolveStation appends_stationTimetable)

text \<open>A computation that starts with a fetch has that fetch first in what it appends.\<close>

lemma starts_with_fetch:
  assumes "\<And>x. appends (f x)"
  shows "\<exists>rest. snd (tryCatch (andThen (fetchJson h url) f) (\<lambda>error. ret v) l)
           = l @ Fetched url # rest"
proof (cases "feed h l url")
  case (Inl e)
  then show ?thesis
    by (simp add: tryCatch_def andThen_def fetchJson_def ret_def)
next
  case (Inr x)
  obtain r2 l2 where f: "f x (l @ [Fetched url]) = (r2, l2)"
    by (cases "f x (l @ [Fetched url])")
  then have "prefix (l @ [Fetched url]) l2"
    using assms appendsD by blast
  then obtain rest where "l2 = (l @ [Fetched url]) @ rest"
    by (auto simp: prefix_def)
  with Inr f show ?thesis
    by (cases r2) (simp_all add: tryCatch_def andThen_def fetchJson_def ret_def)
qed

section \<open>The stop identifier\<close>

lemma nonDigit_iff: "nonDigit c \<longleftrightarrow> c \<notin> set ''0123456789''"
proof -
  have v: "(of_char c :: nat) = n \<longleftrightarrow> c = char_of n" if "n < 256" for n
    using that by (metis char_of_char of_char_of mod_less)
  have "\<not> nonDigit c \<longleftrightarrow> (of_char c :: nat) \<in> {48, 49, 50, 51, 52, 53, 54, 55, 56, 57}"
    unfolding nonDigit_def by (simp; arith)
  also have "\<dots> \<longleftrightarrow> c \<in> set ''0123456789''"
    by (simp add: v char_of_def bit_0)
  finally show ?thesis by blast
qed

lemma sanitizedStopId_filter:
  "sanitizedStopId stop = filter (\<lambda>c. c \<in> set ''0123456789'') stop"
  by (induction stop) (simp_all add: nonDigit_iff del: set_simps)

text \<open>
  C9: the stop identifier of the bus prediction fetch is the stop query with every
  character that is not a decimal digit removed, the digits kept in their order; the
  query \<^verbatim>\<open>stop #3004-076\<close> gives \<^verbatim>\<open>3004076\<close>. The fetch of that URL is the
  first thing \<^verbatim>\<open>fetchBusTimetable\<close> does.
\<close>

theorem stop_id_digits_only:
  "sanitizedStopId stop = filter (\<lambda>c. c \<in> set ''0123456789'') stop \<and>
   sanitizedStopId ''stop #3004-076'' = ''3004076'' \<and>
   (\<exists>rest. snd (fetchBusTimetable u h stop l) =
      l @ Fetched (busPredictionUrl h (filter (\<lambda>c. c \<in> set ''0123456789'') stop)) # rest)"
proof (intro conjI)
  show "sanitizedStopId stop = filter (\<lambda>c. c \<in> set ''0123456789'') stop"
    by (rule sanitizedStopId_filter)
  show "sanitizedStopId ''stop #3004-076'' = ''3004076''"
    by (simp add: nonDigit_def)
  have "\<exists>rest. snd (fetchBusTimetable u h stop l) =
      l @ Fetched (busPredictionUrl h (sanitizedStopId stop)) # rest"
    unfolding fetchBusTimetable_def
    by (rule starts_with_fetch) (intro appends_intros appends_fetchIncidents appends_callGlobal)
  then show "\<exists>rest. snd (fetchBusTimetable u h stop l) =
      l @ Fetched (busPredictionUrl h (filter (\<lambda>c. c \<in> set ''0123456789'') stop)) # rest"
    by (simp only: sanitizedStopId_filter)
qed

theorem stop_id_digits_only_witness:
  "sanitizedStopId ''bus 12a'' = ''12'' \<and>
   (\<exists>rest. snd (fetchBusTimetable exampleUtil (tableHost []) ''bus 12a'' []) =
      Fetched (busPredictionAt ''12'') # rest)"
  using stop_id_digits_only [of "''bus 12a''" exampleUtil "tableHost []" "[]"]
  by (simp add: busPredictionUrl_def busPredictionAt_def rootUrl_def tableHost_def)

lemmas lower_simps = toLowerCase_def lowerChar_def char_of_def bit_0 bit_Suc

section \<open>A query that matches no station\<close>

lemma not_found_run:
  assumes "feed h l (stationsUrl h) = Inr stations"
    and "stationPartialSearch u (JStr (toLowerCase station)) stations = Inr p"
    and "\<not> truthy p"
    and "stationFuzzySearch u (JStr (toLowerCase station)) stations = Inr f"
    and "\<not> truthy f"
  shows "fetchTrainTimetable u h station l =
    (Inr JNull,
     l @ [Fetched (stationsUrl h),
          Called ''stationPartialSearch'' [JStr (toLowerCase station), stations],
          Called ''stationFuzzySearch'' [JStr (toLowerCase station), stations]])"
  using assms
  by (simp add: fetchTrainTimetable_def tryCatch_def andThen_def fetchJson_def
      resolveStation_def callUtil_def ret_def Let_def)

lemma station_feed_failure:
  assumes "feed h l (stationsUrl h) = Inl e"
  shows "fetchTrainTimetable u h station l = (Inr (JArr []), l @ [Fetched (stationsUrl h)])"
  using assms
  by (simp add: fetchTrainTimetable_def tryCatch_def andThen_def fetchJson_def ret_def)

text \<open>
  C4: when neither search finds a station (each returns a falsy value), the result of
  \<^verbatim>\<open>fetchTrainTimetable\<close> is \<^verbatim>\<open>null\<close>, and it differs from the result of an
  upstream failure, the empty array: a run whose station feed fails returns \<^verbatim>\<open>[]\<close>.
\<close>

theorem not_found_is_null:
  assumes "feed h l (stationsUrl h) = Inr stations"
    and "stationPartialSearch u (JStr (toLowerCase station)) stations = Inr p"
    and "\<not> truthy p"
    and "stationFuzzySearch u (JStr (toLowerCase station)) stations = Inr f"
    and "\<not> truthy f"
  shows "fst (fetchTrainTimetable u h station l) = Inr JNull \<and>
    (\<forall>h' e. feed h' l (stationsUrl h') = Inl e \<longrightarrow>
       fst (fetchTrainTimetable u h' station l) = Inr (JArr []) \<and>
       fst (fetchTrainTimetable u h' station l) \<noteq> fst (fetchTrainTimetable u h station l))"
  by (simp add: not_found_run [OF assms] station_feed_failure)

theorem not_found_is_null_witness:
  "fst (fetchTrainTimetable exampleUtil
          (tableHost [(stationsAt, Inr (JArr [fortTotten, metroCenter]))])
          ''zzzznotastation'' []) = Inr JNull \<and>
   fst (fetchTrainTimetable exampleUtil (tableHost []) ''zzzznotastation'' []) = Inr (JArr [])"
proof -
  let ?h = "tableHost [(stationsAt, Inr (JArr [fortTotten, metroCenter]))]"
  let ?s = "JArr [fortTotten, metroCenter]"
  have 1: "feed ?h [] (stationsUrl ?h) = Inr ?s"
    by (simp add: tableHost_def stationsUrl_def stationsAt_def rootUrl_def)
  have 2: "stationPartialSearch exampleUtil (JStr (toLowerCase ''zzzznotastation'')) ?s
             = Inr JUndefined"
    by (simp add: exampleUtil_def partialSearch_def nameMatches_def fortTotten_def
        metroCenter_def lower_simps)
  have 3: "stationFuzzySearch exampleUtil (JStr (toLowerCase ''zzzznotastation'')) ?s
             = Inr JUndefined"
    by (simp add: exampleUtil_def)
  have 4: "feed (tableHost []) [] (stationsUrl (tableHost [])) = Inl FetchError"
    by (simp add: tableHost_def)
  from not_found_is_null [OF 1 2 _ 3] 4 show ?thesis
    by (metis truthy.simps(1))
qed

text \<open>
  C10: when neither search finds a station, \<^verbatim>\<open>fetchTrainTimetable\<close> returns
  \<^verbatim>\<open>null\<close> having fetched the station list and nothing else: the log gains the
  station fetch and the two searches, no prediction fetch and no incident fetch. The
  outcome is the same under every host that has the same key and gives the same station
  list, whatever its prediction and incident feeds do.
\<close>

theorem not_found_touches_no_other_feed:
  assumes "feed h l (stationsUrl h) = Inr stations"
    and "stationPartialSearch u (JStr (toLowerCase station)) stations = Inr p"
    and "\<not> truthy p"
    and "stationFuzzySearch u (JStr (toLowerCase station)) stations = Inr f"
    and "\<not> truthy f"
  shows "fetchTrainTimetable u h station l =
    (Inr JNull,
     l @ [Fetched (stationsUrl h),
          Called ''stationPartialSearch'' [JStr (toLowerCase station), stations],
          Called ''stationFuzzySearch'' [JStr (toLowerCase station), stations]]) \<and>
    (\<forall>h'. wmataApiKey h' = wmataApiKey h \<and> feed h' l (stationsUrl h') = Inr stations \<longrightarrow>
       fetchTrainTimetable u h' station l = fetchTrainTimetable u h station l)"
proof (intro conjI allI impI)
  show "fetchTrainTimetable u h station l =
    (Inr JNull,
     l @ [Fetched (stationsUrl h),
          Called ''stationPartialSearch'' [JStr (toLowerCase station), stations],
          Called ''stationFuzzySearch'' [JStr (toLowerCase station), stations]])"
    by (rule not_found_run [OF assms])
next
  fix h'
  assume h': "wmataApiKey h' = wmataApiKey h \<and> feed h' l (stationsUrl h') = Inr stations"
  then have "stationsUrl h' = stationsUrl h"
    by (simp add: stationsUrl_def)
  with h' assms show "fetchTrainTimetable u h' station l = fetchTrainTimetable u h station l"
    by (simp add: not_found_run)
qed

theorem not_found_touches_no_other_feed_witness:
  "fetchTrainTimetable exampleUtil
     (tableHost [(stationsAt, Inr (JArr [metroCenter]))]) ''Zzzz'' [] =
   (Inr JNull,
    [Fetched stationsAt,
     Called ''stationPartialSearch'' [JStr ''zzzz'', JArr [metroCenter]],
     Called ''stationFuzzySearch'' [JStr ''zzzz'', JArr [metroCenter]]]) \<and>
   fetchTrainTimetable exampleUtil
     (tableHost [(stationsAt, Inr (JArr [metroCenter])),
                 (predictionAt ''A01'', Inr (JObj [(''Trains'', JArr [train ''RD'' ''Glenmont'' ''5''])])),
                 (incidentsAt, Inr (JArr []))]) ''Zzzz'' [] =
   fetchTrainTimetable exampleUtil
     (tableHost [(stationsAt, Inr (JArr [metroCenter]))]) ''Zzzz'' []"
proof -
  let ?h = "tableHost [(stationsAt, Inr (JArr [metroCenter]))]"
  let ?h' = "tableHost [(stationsAt, Inr (JArr [metroCenter])),
                 (predictionAt ''A01'', Inr (JObj [(''Trains'', JArr [train ''RD'' ''Glenmont'' ''5''])])),
                 (incidentsAt, Inr (JArr []))]"
  let ?s = "JArr [metroCenter]"
  have 0: "toLowerCase ''Zzzz'' = ''zzzz''"
    by (simp add: lower_simps)
  have 1: "feed ?h [] (stationsUrl ?h) = Inr ?s"
    by (simp add: tableHost_def stationsUrl_def stationsAt_def rootUrl_def)
  have 2: "stationPartialSearch exampleUtil (JStr (toLowerCase ''Zzzz'')) ?s = Inr JUndefined"
    by (simp add: 0 exampleUtil_def partialSearch_def nameMatches_def metroCenter_def
        lower_simps)
  have 3: "stationFuzzySearch exampleUtil (JStr (toLowerCase ''Zzzz'')) ?s = Inr JUndefined"
    by (simp add: exampleUtil_def)
  have 4: "wmataApiKey ?h' = wmataApiKey ?h \<and> feed ?h' [] (stationsUrl ?h') = Inr ?s"
    by (simp add: tableHost_def stationsUrl_def stationsAt_def rootUrl_def)
  have 5: "stationsUrl ?h = stationsAt"
    by (simp add: tableHost_def stationsUrl_def stationsAt_def rootUrl_def)
  have 6: "\<not> truthy JUndefined" by simp
  from not_found_touches_no_other_feed [OF 1 2 6 3 6] 4 show ?thesis
    by (simp add: 0 5)
qed

section \<open>The bus timetable\<close>

lemma fetchIncidents_run:
  "fetchIncidents h transport l =
     (Inr (case feed h l (incidentsUrl h transport) of Inl e \<Rightarrow> JArr [] | Inr v \<Rightarrow> v),
      l @ [Fetched (incidentsUrl h transport)])"
  by (simp add: fetchIncidents_def tryCatch_def fetchJson_def ret_def split: sum.split)

lemma bus_unbound_identifier:
  assumes "globalThis h ''getRelevantBusIncidents'' = None"
  shows "fst (fetchBusTimetable u h stop l) = Inr (JArr [])"
  using assms
  by (simp add: fetchBusTimetable_def tryCatch_def andThen_def fetchJson_def
      fetchIncidents_run callGlobal_def lift_def ret_def split: sum.split)

text \<open>
  C1: the run of \<^verbatim>\<open>fetchBusTimetable\<close> for stop \<^verbatim>\<open>3004076\<close> on a host whose bus
  prediction feed and bus incident feed both answer. The prediction fetch succeeds, the
  incident fetch succeeds, and the result is the empty array of the \<^verbatim>\<open>catch\<close>
  block, not an object with the stop name and the predictions: the call of
  \<^verbatim>\<open>getRelevantBusIncidents\<close>, which nothing binds, throws.
\<close>

theorem bus_timetable_of_answering_feed:
  "feed (tableHost [(busPredictionAt ''3004076'',
                     Inr (JObj [(''StopName'', JStr ''K St + 13th St''),
                                (''Predictions'', JArr [JObj [(''RouteID'', JStr ''80''),
                                                              (''Minutes'', JNum 4)]])])),
                    (busIncidentsAt, Inr (JObj [(''BusIncidents'', JArr [])]))])
     [] (busPredictionAt ''3004076'') =
     Inr (JObj [(''StopName'', JStr ''K St + 13th St''),
                (''Predictions'', JArr [JObj [(''RouteID'', JStr ''80''),
                                              (''Minutes'', JNum 4)]])]) \<and>
   fetchBusTimetable exampleUtil
     (tableHost [(busPredictionAt ''3004076'',
                  Inr (JObj [(''StopName'', JStr ''K St + 13th St''),
                             (''Predictions'', JArr [JObj [(''RouteID'', JStr ''80''),
                                                           (''Minutes'', JNum 4)]])])),
                 (busIncidentsAt, Inr (JObj [(''BusIncidents'', JArr [])]))])
     ''3004076'' [] =
     (Inr (JArr []), [Fetched (busPredictionAt ''3004076''), Fetched busIncidentsAt])"
  by (simp add: fetchBusTimetable_def tryCatch_def andThen_def fetchJson_def
      fetchIncidents_run callGlobal_def lift_def ret_def tableHost_def exampleUtil_def
      busPredictionUrl_def busPredictionAt_def busIncidentsAt_def incidentsUrl_def
      rootUrl_def nonDigit_def)

section \<open>The line codes of a station\<close>

lemma pushLine_object:
  "pushLine (JObj kvs) tested pushed lines =
     Inr (if map_of kvs tested = Some JNull then lines
          else lines @ [case map_of kvs pushed of None \<Rightarrow> JUndefined | Some v \<Rightarrow> v])"
  by (simp add: pushLine_def bindE_def split: option.split)

text \<open>
  The list for a station record that is an object: the keys \<^verbatim>\<open>LineCode1\<close>,
  \<^verbatim>\<open>LineCode3\<close> and \<^verbatim>\<open>LineCode4\<close> give their own value when it is not
  \<^verbatim>\<open>null\<close>, and \<^verbatim>\<open>LineCode2\<close> gives the value of the key \<^verbatim>\<open>lineCode2\<close>.
\<close>

lemma lineCodes_object:
  "lineCodes (JObj kvs) =
     Inr ((if map_of kvs ''LineCode1'' = Some JNull then []
           else [case map_of kvs ''LineCode1'' of None \<Rightarrow> JUndefined | Some v \<Rightarrow> v]) @
          (if map_of kvs ''LineCode2'' = Some JNull then []
           else [case map_of kvs ''lineCode2'' of None \<Rightarrow> JUndefined | Some v \<Rightarrow> v]) @
          (if map_of kvs ''LineCode3'' = Some JNull then []
           else [case map_of kvs ''LineCode3'' of None \<Rightarrow> JUndefined | Some v \<Rightarrow> v]) @
          (if map_of kvs ''LineCode4'' = Some JNull then []
           else [case map_of kvs ''LineCode4'' of None \<Rightarrow> JUndefined | Some v \<Rightarrow> v]))"
  unfolding lineCodes_def pushLine_object
  by (simp add: bindE_def)

text \<open>
  C2: the run of \<^verbatim>\<open>fetchTrainTimetable\<close> for the station of the specification's
  example, whose line codes are \<^verbatim>\<open>RD\<close> and \<^verbatim>\<open>BL\<close>. The list handed to
  \<^verbatim>\<open>getRelevantIncidents\<close> is \<^verbatim>\<open>RD\<close> followed by \<^verbatim>\<open>undefined\<close>, not
  \<^verbatim>\<open>RD\<close> followed by \<^verbatim>\<open>BL\<close>.
\<close>

theorem line_codes_of_metro_center:
  "lineCodes metroCenter = Inr [JStr ''RD'', JUndefined] \<and>
   snd (fetchTrainTimetable exampleUtil
          (tableHost [(stationsAt, Inr (JArr [metroCenter])),
                      (predictionAt ''A01'', Inr (JObj [(''Trains'', JArr [])])),
                      (incidentsAt, Inr (JArr []))])
          ''Metro Center'' []) =
     [Fetched stationsAt,
      Called ''stationPartialSearch'' [JStr ''metro center'', JArr [metroCenter]],
      Fetched (predictionAt ''A01''),
      Fetched incidentsAt,
      Called ''getRelevantIncidents'' [JArr [JStr ''RD'', JUndefined], JArr []]]"
proof
  show c: "lineCodes metroCenter = Inr [JStr ''RD'', JUndefined]"
    by (simp add: metroCenter_def lineCodes_object)
  let ?h = "tableHost [(stationsAt, Inr (JArr [metroCenter])),
                      (predictionAt ''A01'', Inr (JObj [(''Trains'', JArr [])])),
                      (incidentsAt, Inr (JArr []))]"
  have low: "toLowerCase ''Metro Center'' = ''metro center''"
    by (simp add: lower_simps)
  have found: "partialSearch (JStr ''metro center'') (JArr [metroCenter]) = Inr metroCenter"
    by (simp add: partialSearch_def nameMatches_def metroCenter_def lower_simps)
  have t: "truthy metroCenter"
    by (simp add: metroCenter_def)
  have r: "resolveStation exampleUtil ''Metro Center'' (JArr [metroCenter]) l =
      (Inr metroCenter,
       l @ [Called ''stationPartialSearch'' [JStr ''metro center'', JArr [metroCenter]]])" for l
    by (simp add: resolveStation_def low exampleUtil_def found andThen_def callUtil_def
        ret_def t)
  have urls: "stationsUrl ?h = stationsAt" "predictionUrl ?h (JStr ''A01'') = predictionAt ''A01''"
    "incidentsUrl ?h ''train'' = incidentsAt"
    by (simp_all add: stationsUrl_def predictionUrl_def incidentsUrl_def tableHost_def
        stationsAt_def predictionAt_def incidentsAt_def rootUrl_def)
  have feeds: "feed ?h l stationsAt = Inr (JArr [metroCenter])"
    "feed ?h l (predictionAt ''A01'') = Inr (JObj [(''Trains'', JArr [])])"
    "feed ?h l incidentsAt = Inr (JArr [])" for l
    by (simp_all add: tableHost_def stationsAt_def predictionAt_def incidentsAt_def)
  have props: "getProp metroCenter ''Code'' = Inr (JStr ''A01'')"
    "getProp metroCenter ''StationTogether1'' = Inr JNull"
    "getProp metroCenter ''Name'' = Inr (JStr ''Metro Center'')"
    by (simp_all add: metroCenter_def)
  have u: "serviceTypeEnum_TRAIN exampleUtil = ''train''"
    "getRelevantIncidents exampleUtil lines incidents = Inr (JArr [])" for lines incidents
    by (simp_all add: exampleUtil_def)
  show "snd (fetchTrainTimetable exampleUtil ?h ''Metro Center'' []) =
     [Fetched stationsAt,
      Called ''stationPartialSearch'' [JStr ''metro center'', JArr [metroCenter]],
      Fetched (predictionAt ''A01''),
      Fetched incidentsAt,
      Called ''getRelevantIncidents'' [JArr [JStr ''RD'', JUndefined], JArr []]]"
    by (simp add: fetchTrainTimetable_def stationTimetable_def tryCatch_def andThen_def
        fetchJson_def urls feeds r t props c lift_def ret_def callUtil_def
        fetchIncidents_run predictionData_def arrayFilter_def bindE_def u)
qed

section \<open>Reading a successful run backwards\<close>

lemma andThen_value:
  assumes "andThen m f l = (Inr v, l')"
  obtains x l1 where "m l = (Inr x, l1)" and "f x l1 = (Inr v, l')"
  using assms by (auto simp: andThen_def split: prod.splits sum.splits)

lemma lift_value: "lift r l = (Inr v, l') \<longleftrightarrow> r = Inr v \<and> l' = l"
  by (auto simp: lift_def)

lemma ret_value: "ret x l = (Inr v, l') \<longleftrightarrow> v = x \<and> l' = l"
  by (auto simp: ret_def)

lemma bindE_value: "bindE r f = Inr v \<longleftrightarrow> (\<exists>x. r = Inr x \<and> f x = Inr v)"
  by (cases r) (simp_all add: bindE_def)

lemma tryCatch_value:
  assumes "tryCatch m (\<lambda>error. ret x) l = (Inr v, l')"
  shows "v = x \<or> m l = (Inr v, l')"
  using assms by (auto simp: tryCatch_def ret_def split: prod.splits sum.splits)

section \<open>The filter of the predictions\<close>

lemma filterE_value:
  assumes "filterE p xs = Inr ys"
  shows "ys = filter (\<lambda>x. p x = Inr True) xs \<and> (\<forall>x\<in>set xs. \<exists>b. p x = Inr b)"
  using assms
proof (induction xs arbitrary: ys)
  case Nil
  then show ?case by simp
next
  case (Cons x xs)
  from Cons.prems obtain b zs where b: "p x = Inr b" and zs: "filterE p xs = Inr zs"
    and ys: "ys = (if b then x # zs else zs)"
    by (auto simp: bindE_value)
  from Cons.IH [OF zs] b ys show ?case by auto
qed

lemma keepPrediction_value:
  "keepPrediction item = Inr b \<Longrightarrow>
     (\<exists>line destination. getProp item ''Line'' = Inr line \<and>
        getProp item ''Destination'' = Inr destination \<and>
        b = (line \<noteq> JStr ''None'' \<and> line \<noteq> JStr ''No'' \<and>
             destination \<noteq> JStr ''ssenger'' \<and> destination \<noteq> JStr ''Train''))"
  by (cases item) (auto simp: keepPrediction_def bindE_def split: if_splits option.splits)

lemma keepPrediction_exact:
  assumes "keepPrediction item = Inr b"
  shows "b \<longleftrightarrow>
     getProp item ''Line'' \<notin> {Inr (JStr ''None''), Inr (JStr ''No'')} \<and>
     getProp item ''Destination'' \<notin> {Inr (JStr ''ssenger''), Inr (JStr ''Train'')}"
  using keepPrediction_value [OF assms] by auto

lemma predictionData_value:
  assumes "predictionData trains = Inr v"
  obtains xs where "trains = JArr xs"
    and "v = JArr (filter (\<lambda>i. keepPrediction i = Inr True) xs)"
    and "\<forall>i\<in>set xs. \<exists>b. keepPrediction i = Inr b"
proof -
  from assms obtain xs ys where t: "trains = JArr xs" and f: "filterE keepPrediction xs = Inr ys"
    and v: "v = JArr ys"
    by (cases trains) (auto simp: predictionData_def arrayFilter_def bindE_value)
  from filterE_value [OF f] t v that show thesis by blast
qed

lemma predictionData_exact:
  assumes "predictionData (JArr xs) = Inr v"
  shows "v = JArr (filter (\<lambda>i.
       getProp i ''Line'' \<notin> {Inr (JStr ''None''), Inr (JStr ''No'')} \<and>
       getProp i ''Destination'' \<notin> {Inr (JStr ''ssenger''), Inr (JStr ''Train'')}) xs)"
proof -
  from assms obtain ys where "JArr xs = JArr ys"
    and v: "v = JArr (filter (\<lambda>i. keepPrediction i = Inr True) ys)"
    and all: "\<forall>i\<in>set ys. \<exists>b. keepPrediction i = Inr b"
    by (rule predictionData_value)
  then have ys: "ys = xs" by simp
  have "filter (\<lambda>i. keepPrediction i = Inr True) xs =
        filter (\<lambda>i. getProp i ''Line'' \<notin> {Inr (JStr ''None''), Inr (JStr ''No'')} \<and>
          getProp i ''Destination'' \<notin> {Inr (JStr ''ssenger''), Inr (JStr ''Train'')}) xs"
  proof (rule filter_cong [OF refl])
    fix i assume "i \<in> set xs"
    with all ys obtain b where b: "keepPrediction i = Inr b" by blast
    from keepPrediction_exact [OF b] b
    show "(keepPrediction i = Inr True) =
      (getProp i ''Line'' \<notin> {Inr (JStr ''None''), Inr (JStr ''No'')} \<and>
       getProp i ''Destination'' \<notin> {Inr (JStr ''ssenger''), Inr (JStr ''Train'')})"
      by auto
  qed
  with v ys show ?thesis by simp
qed

text \<open>What a timetable is when the branch of a found station returns one.\<close>

lemma stationTimetable_value:
  assumes "stationTimetable u h stationData l = (Inr v, l')"
  obtains name trains predictions incidents where
    "v = JObj [(''stationName'', name), (''predictions'', predictions),
               (''incidents'', incidents)]"
    and "predictionData trains = Inr predictions"
  using assms unfolding stationTimetable_def
  by (elim andThen_value) (auto simp: lift_value ret_value)

lemma fetchTrainTimetable_value:
  assumes "fst (fetchTrainTimetable u h station l) = Inr (JObj kvs)"
  obtains name trains predictions incidents where
    "kvs = [(''stationName'', name), (''predictions'', predictions),
            (''incidents'', incidents)]"
    and "predictionData trains = Inr predictions"
proof -
  obtain l' where run: "fetchTrainTimetable u h station l = (Inr (JObj kvs), l')"
    using assms by (cases "fetchTrainTimetable u h station l") simp
  from tryCatch_value [OF run [unfolded fetchTrainTimetable_def]]
  have "andThen (fetchJson h (stationsUrl h)) (\<lambda>stations.
        andThen (resolveStation u station stations) (\<lambda>stationData.
          if truthy stationData then stationTimetable u h stationData
          else ret JNull)) l = (Inr (JObj kvs), l')"
    by simp
  then obtain stationData l1 where "stationTimetable u h stationData l1 = (Inr (JObj kvs), l')"
    by (elim andThen_value) (auto simp: ret_value split: if_splits)
  then show thesis
    by (elim stationTimetable_value) (use that in auto)
qed

text \<open>
  C6: whenever \<^verbatim>\<open>fetchTrainTimetable\<close> returns a timetable, no entry of its
  predictions has the line \<^verbatim>\<open>None\<close> or \<^verbatim>\<open>No\<close> or the destination
  \<^verbatim>\<open>ssenger\<close> or \<^verbatim>\<open>Train\<close>. The filter compares for equality with these
  four strings and nothing else: when it returns, it returns exactly the entries of its
  input, in order, whose line is neither of the two and whose destination is neither of
  the two.
\<close>

theorem sentinel_entries_are_filtered:
  "(fst (fetchTrainTimetable u h station l) = Inr (JObj kvs) \<longrightarrow>
      (\<exists>ps. map_of kvs ''predictions'' = Some (JArr ps) \<and>
         (\<forall>p\<in>set ps.
            getProp p ''Line'' \<noteq> Inr (JStr ''None'') \<and>
            getProp p ''Line'' \<noteq> Inr (JStr ''No'') \<and>
            getProp p ''Destination'' \<noteq> Inr (JStr ''ssenger'') \<and>
            getProp p ''Destination'' \<noteq> Inr (JStr ''Train'')))) \<and>
   (predictionData (JArr trains) = Inr v \<longrightarrow>
      v = JArr (filter (\<lambda>i.
            getProp i ''Line'' \<notin> {Inr (JStr ''None''), Inr (JStr ''No'')} \<and>
            getProp i ''Destination'' \<notin> {Inr (JStr ''ssenger''), Inr (JStr ''Train'')})
          trains))"
proof (intro conjI impI)
  assume "fst (fetchTrainTimetable u h station l) = Inr (JObj kvs)"
  then obtain name ts predictions incidents where
    kvs: "kvs = [(''stationName'', name), (''predictions'', predictions),
            (''incidents'', incidents)]"
    and p: "predictionData ts = Inr predictions"
    by (rule fetchTrainTimetable_value)
  from p obtain xs where ts: "ts = JArr xs" by (rule predictionData_value)
  from predictionData_exact [OF p [unfolded ts]] kvs
  show "\<exists>ps. map_of kvs ''predictions'' = Some (JArr ps) \<and>
         (\<forall>p\<in>set ps.
            getProp p ''Line'' \<noteq> Inr (JStr ''None'') \<and>
            getProp p ''Line'' \<noteq> Inr (JStr ''No'') \<and>
            getProp p ''Destination'' \<noteq> Inr (JStr ''ssenger'') \<and>
            getProp p ''Destination'' \<noteq> Inr (JStr ''Train''))"
    by simp
next
  assume "predictionData (JArr trains) = Inr v"
  then show "v = JArr (filter (\<lambda>i.
            getProp i ''Line'' \<notin> {Inr (JStr ''None''), Inr (JStr ''No'')} \<and>
            getProp i ''Destination'' \<notin> {Inr (JStr ''ssenger''), Inr (JStr ''Train'')})
          trains)"
    by (rule predictionData_exact)
qed

section \<open>Runs on the example host\<close>

lemma resolve_by_partial:
  assumes "stationPartialSearch u (JStr (toLowerCase station)) stations = Inr stationData"
    and "truthy stationData"
  shows "resolveStation u station stations l =
    (Inr stationData,
     l @ [Called ''stationPartialSearch'' [JStr (toLowerCase station), stations]])"
  using assms
  by (simp add: resolveStation_def Let_def andThen_def callUtil_def ret_def)

lemma found_unpaired_run:
  assumes "feed h l (stationsUrl h) = Inr stations"
    and "resolveStation u station stations (l @ [Fetched (stationsUrl h)]) = (Inr stationData, l1)"
    and "truthy stationData"
    and "getProp stationData ''Code'' = Inr code"
    and "getProp stationData ''StationTogether1'' = Inr together"
    and "\<not> truthy together"
    and "feed h l1 (predictionUrl h code) = Inr predictionObj"
    and "getProp predictionObj ''Trains'' = Inr trains"
    and "predictionData trains = Inr predictions"
    and "lineCodes stationData = Inr lines"
    and "incidentData =
           (case feed h (l1 @ [Fetched (predictionUrl h code)])
                   (incidentsUrl h (serviceTypeEnum_TRAIN u)) of
              Inl e \<Rightarrow> JArr [] | Inr v \<Rightarrow> v)"
    and "getRelevantIncidents u (JArr lines) incidentData = Inr incidents"
    and "getProp stationData ''Name'' = Inr name"
  shows "fetchTrainTimetable u h station l =
    (Inr (JObj [(''stationName'', name), (''predictions'', predictions),
                (''incidents'', incidents)]),
     l1 @ [Fetched (predictionUrl h code),
           Fetched (incidentsUrl h (serviceTypeEnum_TRAIN u)),
           Called ''getRelevantIncidents'' [JArr lines, incidentData]])"
  using assms
  by (simp add: fetchTrainTimetable_def stationTimetable_def tryCatch_def andThen_def
      fetchJson_def lift_def ret_def callUtil_def fetchIncidents_run)

lemma tableHost_feed:
  "feed (tableHost table) l url =
     (case map_of table url of Some r \<Rightarrow> r | None \<Rightarrow> Inl FetchError)"
  by (simp add: tableHost_def)

lemma tableHost_urls:
  "stationsUrl (tableHost table) = stationsAt"
  "predictionUrl (tableHost table) (JStr code) = predictionAt code"
  "incidentsUrl (tableHost table) ''train'' = incidentsAt"
  "incidentsUrl (tableHost table) ''bus'' = busIncidentsAt"
  "busPredictionUrl (tableHost table) stopId = busPredictionAt stopId"
  by (simp_all add: stationsUrl_def predictionUrl_def incidentsUrl_def busPredictionUrl_def
      tableHost_def stationsAt_def predictionAt_def incidentsAt_def busIncidentsAt_def
      busPredictionAt_def rootUrl_def)

lemmas url_simps = stationsAt_def predictionAt_def incidentsAt_def busIncidentsAt_def
  busPredictionAt_def

lemma exampleUtil_simps:
  "stationPartialSearch exampleUtil = partialSearch"
  "stationFuzzySearch exampleUtil query stations = Inr JUndefined"
  "getRelevantIncidents exampleUtil lines incidents = Inr (JArr [])"
  "sortPredictions exampleUtil = sortSpec ''Min''"
  "serviceTypeEnum_TRAIN exampleUtil = ''train''"
  "serviceTypeEnum_BUS exampleUtil = ''bus''"
  by (simp_all add: exampleUtil_def)

lemma metroCenter_props:
  "truthy metroCenter"
  "getProp metroCenter ''Code'' = Inr (JStr ''A01'')"
  "getProp metroCenter ''StationTogether1'' = Inr JNull"
  "getProp metroCenter ''Name'' = Inr (JStr ''Metro Center'')"
  "lineCodes metroCenter = Inr [JStr ''RD'', JUndefined]"
  by (simp_all add: metroCenter_def lineCodes_object)

lemma metroCenter_found:
  "partialSearch (JStr (toLowerCase ''Metro Center'')) (JArr [metroCenter]) = Inr metroCenter"
  by (simp add: partialSearch_def nameMatches_def metroCenter_def lower_simps)

text \<open>
  The run for the specification's station on a host that gives the station list, the
  trains \<open>ts\<close> for its platform and no incident.
\<close>

lemma metroCenter_run:
  assumes "predictionData (JArr ts) = Inr predictions"
  shows "fetchTrainTimetable exampleUtil
      (tableHost [(stationsAt, Inr (JArr [metroCenter])),
                  (predictionAt ''A01'', Inr (JObj [(''Trains'', JArr ts)])),
                  (incidentsAt, Inr (JArr []))])
      ''Metro Center'' [] =
    (Inr (JObj [(''stationName'', JStr ''Metro Center''), (''predictions'', predictions),
                (''incidents'', JArr [])]),
     [Fetched stationsAt,
      Called ''stationPartialSearch'' [JStr (toLowerCase ''Metro Center''), JArr [metroCenter]],
      Fetched (predictionAt ''A01''),
      Fetched incidentsAt,
      Called ''getRelevantIncidents'' [JArr [JStr ''RD'', JUndefined], JArr []]])"
proof -
  let ?h = "tableHost [(stationsAt, Inr (JArr [metroCenter])),
                  (predictionAt ''A01'', Inr (JObj [(''Trains'', JArr ts)])),
                  (incidentsAt, Inr (JArr []))]"
  have r: "resolveStation exampleUtil ''Metro Center'' (JArr [metroCenter])
             ([] @ [Fetched (stationsUrl ?h)]) =
           (Inr metroCenter,
            [Fetched stationsAt,
             Called ''stationPartialSearch''
               [JStr (toLowerCase ''Metro Center''), JArr [metroCenter]]])"
    by (simp add: resolve_by_partial exampleUtil_simps metroCenter_found metroCenter_props
        tableHost_urls)
  have f1: "feed ?h [] (stationsUrl ?h) = Inr (JArr [metroCenter])"
    by (simp add: tableHost_feed tableHost_urls)
  have f2: "feed ?h l (predictionUrl ?h (JStr ''A01'')) = Inr (JObj [(''Trains'', JArr ts)])" for l
    by (simp add: tableHost_feed tableHost_urls url_simps)
  have f3: "(case feed ?h l (incidentsUrl ?h (serviceTypeEnum_TRAIN exampleUtil)) of
              Inl e \<Rightarrow> JArr [] | Inr v \<Rightarrow> v) = JArr []" for l
    by (simp add: tableHost_feed tableHost_urls url_simps exampleUtil_simps)
  have t: "getProp (JObj [(''Trains'', JArr ts)]) ''Trains'' = Inr (JArr ts)"
    by simp
  have n: "\<not> truthy JNull" by simp
  show ?thesis
    using found_unpaired_run [OF f1 r metroCenter_props(1,2,3) n f2 t assms
        metroCenter_props(5) f3 [symmetric] exampleUtil_simps(3) metroCenter_props(4)]
    by (simp add: tableHost_urls exampleUtil_simps)
qed

theorem sentinel_entries_are_filtered_witness:
  "fst (fetchTrainTimetable exampleUtil
      (tableHost [(stationsAt, Inr (JArr [metroCenter])),
                  (predictionAt ''A01'',
                   Inr (JObj [(''Trains'',
                     JArr [train ''RD'' ''Glenmont'' ''5'', train ''No'' ''No Passenger'' ''BRD'',
                           train ''BL'' ''ssenger'' ''2'', train ''None'' ''Largo'' ''3'',
                           train ''--'' ''Train'' ''ARR'',
                           train ''NO'' ''No Passenger'' ''7''])])),
                  (incidentsAt, Inr (JArr []))])
      ''Metro Center'' []) =
    Inr (JObj [(''stationName'', JStr ''Metro Center''),
               (''predictions'',
                JArr [train ''RD'' ''Glenmont'' ''5'', train ''NO'' ''No Passenger'' ''7'']),
               (''incidents'', JArr [])]) \<and>
   predictionData
     (JArr [train ''RD'' ''Glenmont'' ''5'', train ''No'' ''No Passenger'' ''BRD'',
            train ''BL'' ''ssenger'' ''2'', train ''None'' ''Largo'' ''3'',
            train ''--'' ''Train'' ''ARR'', train ''NO'' ''No Passenger'' ''7'']) =
     Inr (JArr [train ''RD'' ''Glenmont'' ''5'', train ''NO'' ''No Passenger'' ''7'']) \<and>
   JArr [train ''RD'' ''Glenmont'' ''5'', train ''NO'' ''No Passenger'' ''7''] =
   JArr (filter (\<lambda>i.
            getProp i ''Line'' \<notin> {Inr (JStr ''None''), Inr (JStr ''No'')} \<and>
            getProp i ''Destination'' \<notin> {Inr (JStr ''ssenger''), Inr (JStr ''Train'')})
          [train ''RD'' ''Glenmont'' ''5'', train ''No'' ''No Passenger'' ''BRD'',
           train ''BL'' ''ssenger'' ''2'', train ''None'' ''Largo'' ''3'',
           train ''--'' ''Train'' ''ARR'', train ''NO'' ''No Passenger'' ''7''])"
proof -
  let ?ts = "[train ''RD'' ''Glenmont'' ''5'', train ''No'' ''No Passenger'' ''BRD'',
              train ''BL'' ''ssenger'' ''2'', train ''None'' ''Largo'' ''3'',
              train ''--'' ''Train'' ''ARR'', train ''NO'' ''No Passenger'' ''7'']"
  let ?ps = "JArr [train ''RD'' ''Glenmont'' ''5'', train ''NO'' ''No Passenger'' ''7'']"
  have p: "predictionData (JArr ?ts) = Inr ?ps"
    by (simp add: predictionData_def arrayFilter_def keepPrediction_def bindE_def train_def)
  have exact: "?ps = JArr (filter (\<lambda>i.
            getProp i ''Line'' \<notin> {Inr (JStr ''None''), Inr (JStr ''No'')} \<and>
            getProp i ''Destination'' \<notin> {Inr (JStr ''ssenger''), Inr (JStr ''Train'')}) ?ts)"
    using sentinel_entries_are_filtered [THEN conjunct2, THEN mp, OF p] .
  from metroCenter_run [OF p] p exact show ?thesis
    by (intro conjI) simp_all
qed

section \<open>A station with one platform\<close>

text \<open>
  The filter on an array, in full: it throws when an entry is \<^verbatim>\<open>null\<close> or
  \<^verbatim>\<open>undefined\<close>, and otherwise it is the list filter on the four comparisons.
\<close>

lemma keepPrediction_total:
  "keepPrediction item =
     (if item = JNull \<or> item = JUndefined then Inl TypeError
      else Inr (getProp item ''Line'' \<notin> {Inr (JStr ''None''), Inr (JStr ''No'')} \<and>
                getProp item ''Destination'' \<notin> {Inr (JStr ''ssenger''), Inr (JStr ''Train'')}))"
  by (cases item) (auto simp: keepPrediction_def bindE_def split: option.splits)

lemma filterE_keepPrediction:
  "filterE keepPrediction L =
     (if JNull \<in> set L \<or> JUndefined \<in> set L then Inl TypeError
      else Inr (filter (\<lambda>i.
             getProp i ''Line'' \<notin> {Inr (JStr ''None''), Inr (JStr ''No'')} \<and>
             getProp i ''Destination'' \<notin> {Inr (JStr ''ssenger''), Inr (JStr ''Train'')}) L))"
  by (induction L) (auto simp: keepPrediction_total bindE_def)

lemma predictionData_array:
  "predictionData (JArr L) =
     (if JNull \<in> set L \<or> JUndefined \<in> set L then Inl TypeError
      else Inr (JArr (filter (\<lambda>i.
             getProp i ''Line'' \<notin> {Inr (JStr ''None''), Inr (JStr ''No'')} \<and>
             getProp i ''Destination'' \<notin> {Inr (JStr ''ssenger''), Inr (JStr ''Train'')}) L)))"
  by (simp add: predictionData_def arrayFilter_def filterE_keepPrediction bindE_def)

text \<open>No property read of a truthy value throws, so neither does the list of line codes.\<close>

lemma truthy_getProp:
  assumes "truthy v"
  shows "\<exists>w. getProp v k = Inr w"
  using assms by (cases v) (auto split: option.split)

lemma truthy_lineCodes:
  assumes "truthy v"
  shows "\<exists>lines. lineCodes v = Inr lines"
  using assms
  by (cases v) (auto simp: lineCodes_def pushLine_def bindE_def split: option.split)

text \<open>
  C3, as the code has it: for a station with no second platform (its
  \<^verbatim>\<open>StationTogether1\<close> is falsy) and every primary prediction list \<open>L\<close>, the
  outcome of \<^verbatim>\<open>fetchTrainTimetable\<close> is determined as follows. When an entry of
  \<open>L\<close> is \<^verbatim>\<open>null\<close> or \<^verbatim>\<open>undefined\<close> the filter throws and the result is the
  empty array, right after the prediction fetch. Otherwise the run goes on to the
  incident fetch and to \<^verbatim>\<open>getRelevantIncidents\<close>, and it returns the timetable whose
  predictions are the entries of \<open>L\<close> that equal none of the four strings, in the order
  of the feed (the empty array when that helper throws). In either case the run after
  the resolution of the station holds no call of \<^verbatim>\<open>sortPredictions\<close>.
\<close>

theorem one_platform_is_filtered_in_feed_order:
  assumes "feed h l (stationsUrl h) = Inr stations"
    and "resolveStation u station stations (l @ [Fetched (stationsUrl h)]) =
           (Inr stationData, lr)"
    and "truthy stationData"
    and "getProp stationData ''Code'' = Inr code"
    and "getProp stationData ''StationTogether1'' = Inr together"
    and "\<not> truthy together"
    and "feed h lr (predictionUrl h code) = Inr predictionObj"
    and "getProp predictionObj ''Trains'' = Inr (JArr L)"
  shows "\<exists>lines name incidentData.
      lineCodes stationData = Inr lines \<and>
      getProp stationData ''Name'' = Inr name \<and>
      incidentData =
        (case feed h (lr @ [Fetched (predictionUrl h code)])
                (incidentsUrl h (serviceTypeEnum_TRAIN u)) of
           Inl e \<Rightarrow> JArr [] | Inr v \<Rightarrow> v) \<and>
      fetchTrainTimetable u h station l =
        (if JNull \<in> set L \<or> JUndefined \<in> set L
         then (Inr (JArr []), lr @ [Fetched (predictionUrl h code)])
         else
           (case getRelevantIncidents u (JArr lines) incidentData of
              Inl e \<Rightarrow> Inr (JArr [])
            | Inr incidents \<Rightarrow>
                Inr (JObj [(''stationName'', name),
                           (''predictions'',
                            JArr (filter (\<lambda>i.
                              getProp i ''Line'' \<notin> {Inr (JStr ''None''), Inr (JStr ''No'')} \<and>
                              getProp i ''Destination'' \<notin>
                                {Inr (JStr ''ssenger''), Inr (JStr ''Train'')}) L)),
                           (''incidents'', incidents)]),
            lr @ [Fetched (predictionUrl h code),
                  Fetched (incidentsUrl h (serviceTypeEnum_TRAIN u)),
                  Called ''getRelevantIncidents'' [JArr lines, incidentData]]))"
proof -
  from truthy_lineCodes [OF assms(3)] obtain lines where lines: "lineCodes stationData = Inr lines"
    by blast
  from truthy_getProp [OF assms(3)] obtain name where name: "getProp stationData ''Name'' = Inr name"
    by blast
  have "fetchTrainTimetable u h station l =
        (if JNull \<in> set L \<or> JUndefined \<in> set L
         then (Inr (JArr []), lr @ [Fetched (predictionUrl h code)])
         else
           (case getRelevantIncidents u (JArr lines)
                   (case feed h (lr @ [Fetched (predictionUrl h code)])
                           (incidentsUrl h (serviceTypeEnum_TRAIN u)) of
                      Inl e \<Rightarrow> JArr [] | Inr v \<Rightarrow> v) of
              Inl e \<Rightarrow> Inr (JArr [])
            | Inr incidents \<Rightarrow>
                Inr (JObj [(''stationName'', name),
                           (''predictions'',
                            JArr (filter (\<lambda>i.
                              getProp i ''Line'' \<notin> {Inr (JStr ''None''), Inr (JStr ''No'')} \<and>
                              getProp i ''Destination'' \<notin>
                                {Inr (JStr ''ssenger''), Inr (JStr ''Train'')}) L)),
                           (''incidents'', incidents)]),
            lr @ [Fetched (predictionUrl h code),
                  Fetched (incidentsUrl h (serviceTypeEnum_TRAIN u)),
                  Called ''getRelevantIncidents''
                    [JArr lines,
                     case feed h (lr @ [Fetched (predictionUrl h code)])
                            (incidentsUrl h (serviceTypeEnum_TRAIN u)) of
                       Inl e \<Rightarrow> JArr [] | Inr v \<Rightarrow> v]]))"
    using assms lines name
    by (simp add: fetchTrainTimetable_def stationTimetable_def tryCatch_def andThen_def
        fetchJson_def lift_def ret_def callUtil_def fetchIncidents_run predictionData_array
        split: sum.split)
  with lines name show ?thesis by blast
qed

theorem one_platform_is_filtered_in_feed_order_witness:
  "fetchTrainTimetable exampleUtil
      (tableHost [(stationsAt, Inr (JArr [metroCenter])),
                  (predictionAt ''A01'',
                   Inr (JObj [(''Trains'',
                     JArr [train ''RD'' ''Glenmont'' ''5'', train ''No'' ''No Passenger'' ''3'',
                           train ''BL'' ''Largo'' ''BRD''])])),
                  (incidentsAt, Inr (JArr []))])
      ''Metro Center'' [] =
    (Inr (JObj [(''stationName'', JStr ''Metro Center''),
                (''predictions'',
                 JArr [train ''RD'' ''Glenmont'' ''5'', train ''BL'' ''Largo'' ''BRD'']),
                (''incidents'', JArr [])]),
     [Fetched stationsAt,
      Called ''stationPartialSearch'' [JStr (toLowerCase ''Metro Center''), JArr [metroCenter]],
      Fetched (predictionAt ''A01''),
      Fetched incidentsAt,
      Called ''getRelevantIncidents'' [JArr [JStr ''RD'', JUndefined], JArr []]]) \<and>
   fetchTrainTimetable exampleUtil
      (tableHost [(stationsAt, Inr (JArr [metroCenter])),
                  (predictionAt ''A01'',
                   Inr (JObj [(''Trains'', JArr [train ''RD'' ''Glenmont'' ''5'', JNull])])),
                  (incidentsAt, Inr (JArr []))])
      ''Metro Center'' [] =
    (Inr (JArr []),
     [Fetched stationsAt,
      Called ''stationPartialSearch'' [JStr (toLowerCase ''Metro Center''), JArr [metroCenter]],
      Fetched (predictionAt ''A01'')])"
proof -
  have r: "resolveStation exampleUtil ''Metro Center'' (JArr [metroCenter])
             ([] @ [Fetched (stationsUrl (tableHost table))]) =
           (Inr metroCenter,
            [Fetched stationsAt,
             Called ''stationPartialSearch''
               [JStr (toLowerCase ''Metro Center''), JArr [metroCenter]]])" for table
    by (simp add: resolve_by_partial exampleUtil_simps metroCenter_found metroCenter_props
        tableHost_urls)
  have n: "\<not> truthy JNull" by simp
  have run: "fetchTrainTimetable exampleUtil
      (tableHost [(stationsAt, Inr (JArr [metroCenter])),
                  (predictionAt ''A01'', Inr (JObj [(''Trains'', JArr L)])),
                  (incidentsAt, Inr (JArr []))])
      ''Metro Center'' [] =
    (if JNull \<in> set L \<or> JUndefined \<in> set L
     then (Inr (JArr []),
           [Fetched stationsAt,
            Called ''stationPartialSearch''
              [JStr (toLowerCase ''Metro Center''), JArr [metroCenter]],
            Fetched (predictionAt ''A01'')])
     else (Inr (JObj [(''stationName'', JStr ''Metro Center''),
                      (''predictions'',
                       JArr (filter (\<lambda>i.
                         getProp i ''Line'' \<notin> {Inr (JStr ''None''), Inr (JStr ''No'')} \<and>
                         getProp i ''Destination'' \<notin>
                           {Inr (JStr ''ssenger''), Inr (JStr ''Train'')}) L)),
                      (''incidents'', JArr [])]),
           [Fetched stationsAt,
            Called ''stationPartialSearch''
              [JStr (toLowerCase ''Metro Center''), JArr [metroCenter]],
            Fetched (predictionAt ''A01''),
            Fetched incidentsAt,
            Called ''getRelevantIncidents'' [JArr [JStr ''RD'', JUndefined], JArr []]]))" for L
  proof -
    let ?h = "tableHost [(stationsAt, Inr (JArr [metroCenter])),
                  (predictionAt ''A01'', Inr (JObj [(''Trains'', JArr L)])),
                  (incidentsAt, Inr (JArr []))]"
    have f1: "feed ?h [] (stationsUrl ?h) = Inr (JArr [metroCenter])"
      by (simp add: tableHost_feed tableHost_urls)
    have f2: "feed ?h k (predictionUrl ?h (JStr ''A01'')) = Inr (JObj [(''Trains'', JArr L)])" for k
      by (simp add: tableHost_feed tableHost_urls url_simps)
    have f3: "feed ?h k incidentsAt = Inr (JArr [])" for k
      by (simp add: tableHost_feed url_simps)
    have t: "getProp (JObj [(''Trains'', JArr L)]) ''Trains'' = Inr (JArr L)"
      by simp
    from one_platform_is_filtered_in_feed_order [OF f1 r metroCenter_props(1,2,3) n f2 t]
    show ?thesis
      by (cases "JNull \<in> set L \<or> JUndefined \<in> set L")
         (simp_all add: metroCenter_props f3 exampleUtil_simps tableHost_urls)
  qed
  show ?thesis
    by (simp add: run) (simp add: train_def)
qed

text \<open>
  C3, as the claim has it, fails on the specification's station, which has no second
  platform, when the feed lists a train five minutes away before a boarding one: the
  predictions of the timetable are in the order of the feed, the sort of the
  specification puts the boarding train first, and the ranks of the returned
  predictions do not ascend.
\<close>

theorem one_platform_is_sorted_counterexample:
  "getProp metroCenter ''StationTogether1'' = Inr JNull \<and>
   fst (fetchTrainTimetable exampleUtil
      (tableHost [(stationsAt, Inr (JArr [metroCenter])),
                  (predictionAt ''A01'',
                   Inr (JObj [(''Trains'',
                     JArr [train ''RD'' ''Glenmont'' ''5'', train ''BL'' ''Largo'' ''BRD''])])),
                  (incidentsAt, Inr (JArr []))])
      ''Metro Center'' []) =
    Inr (JObj [(''stationName'', JStr ''Metro Center''),
               (''predictions'',
                JArr [train ''RD'' ''Glenmont'' ''5'', train ''BL'' ''Largo'' ''BRD'']),
               (''incidents'', JArr [])]) \<and>
   bindE (sortPredictions exampleUtil
            (JArr [train ''RD'' ''Glenmont'' ''5'', train ''BL'' ''Largo'' ''BRD'']))
     predictionData =
     Inr (JArr [train ''BL'' ''Largo'' ''BRD'', train ''RD'' ''Glenmont'' ''5'']) \<and>
   \<not> sorted (map (minutesRank ''Min'')
                [train ''RD'' ''Glenmont'' ''5'', train ''BL'' ''Largo'' ''BRD''])"
proof -
  let ?L = "[train ''RD'' ''Glenmont'' ''5'', train ''BL'' ''Largo'' ''BRD'']"
  have p: "predictionData (JArr ?L) = Inr (JArr ?L)"
    by (simp add: predictionData_def arrayFilter_def keepPrediction_def bindE_def train_def)
  have ranks: "minutesRank ''Min'' (train ''RD'' ''Glenmont'' ''5'') = 8"
    "minutesRank ''Min'' (train ''BL'' ''Largo'' ''BRD'') = 0"
    by (simp_all add: minutesRank_def train_def nonDigit_def)
  have s: "sortPredictions exampleUtil (JArr ?L) =
      Inr (JArr [train ''BL'' ''Largo'' ''BRD'', train ''RD'' ''Glenmont'' ''5''])"
    by (simp add: exampleUtil_simps sortSpec_def ranks)
  have q: "predictionData (JArr [train ''BL'' ''Largo'' ''BRD'', train ''RD'' ''Glenmont'' ''5''])
      = Inr (JArr [train ''BL'' ''Largo'' ''BRD'', train ''RD'' ''Glenmont'' ''5''])"
    by (simp add: predictionData_def arrayFilter_def keepPrediction_def bindE_def train_def)
  show ?thesis
    by (simp add: metroCenter_run [OF p] metroCenter_props s q ranks bindE_def)
qed

section \<open>Failures of the feeds\<close>

lemma tryCatch_returns: "\<exists>v. fst (tryCatch m (\<lambda>error. ret x) l) = Inr v"
  by (simp add: tryCatch_def ret_def split: prod.split sum.split)

lemma andThen_assoc: "andThen (andThen m f) g = andThen m (\<lambda>x. andThen (f x) g)"
  by (rule ext) (simp add: andThen_def split: prod.split sum.split)

text \<open>The branch of a found station is its predictions followed by lines 101-126.\<close>

lemma stationTimetable_split:
  "stationTimetable u h stationData =
     andThen (stationPredictions u h stationData) (\<lambda>predictions.
     andThen (lift (lineCodes stationData)) (\<lambda>lines.
     andThen (fetchIncidents h (serviceTypeEnum_TRAIN u)) (\<lambda>incidentData.
     andThen (callUtil ''getRelevantIncidents'' [JArr lines, incidentData]
                (getRelevantIncidents u (JArr lines) incidentData)) (\<lambda>incidents.
     andThen (lift (getProp stationData ''Name'')) (\<lambda>name.
     ret (JObj [(''stationName'', name), (''predictions'', predictions),
                (''incidents'', incidents)]))))))"
  by (simp add: stationTimetable_def stationPredictions_def andThen_assoc)

lemma incident_feed_failure:
  assumes "feed h l (stationsUrl h) = Inr stations"
    and "resolveStation u station stations (l @ [Fetched (stationsUrl h)]) =
           (Inr stationData, lr)"
    and "truthy stationData"
    and "stationPredictions u h stationData lr = (Inr predictions, lp)"
    and "feed h lp (incidentsUrl h (serviceTypeEnum_TRAIN u)) = Inl e"
    and "lineCodes stationData = Inr lines"
    and "getProp stationData ''Name'' = Inr name"
  shows "fetchTrainTimetable u h station l =
    (case getRelevantIncidents u (JArr lines) (JArr []) of
       Inl e' \<Rightarrow> Inr (JArr [])
     | Inr incidents \<Rightarrow>
         Inr (JObj [(''stationName'', name), (''predictions'', predictions),
                    (''incidents'', incidents)]),
     lp @ [Fetched (incidentsUrl h (serviceTypeEnum_TRAIN u)),
           Called ''getRelevantIncidents'' [JArr lines, JArr []]])"
  using assms
  by (simp add: fetchTrainTimetable_def stationTimetable_split tryCatch_def andThen_def
      fetchJson_def lift_def ret_def callUtil_def fetchIncidents_run split: sum.split)

lemma prediction_feed_failure:
  assumes "feed h l (stationsUrl h) = Inr stations"
    and "resolveStation u station stations (l @ [Fetched (stationsUrl h)]) =
           (Inr stationData, lr)"
    and "truthy stationData"
    and "getProp stationData ''Code'' = Inr code"
    and "feed h lr (predictionUrl h code) = Inl e"
  shows "fetchTrainTimetable u h station l =
           (Inr (JArr []), lr @ [Fetched (predictionUrl h code)])"
  using assms
  by (simp add: fetchTrainTimetable_def stationTimetable_def tryCatch_def andThen_def
      fetchJson_def lift_def ret_def)

lemma second_prediction_feed_failure:
  assumes "feed h l (stationsUrl h) = Inr stations"
    and "resolveStation u station stations (l @ [Fetched (stationsUrl h)]) =
           (Inr stationData, lr)"
    and "truthy stationData"
    and "getProp stationData ''Code'' = Inr code"
    and "feed h lr (predictionUrl h code) = Inr predictionObj"
    and "getProp stationData ''StationTogether1'' = Inr together"
    and "truthy together"
    and "feed h (lr @ [Fetched (predictionUrl h code)]) (predictionUrl h together) = Inl e"
  shows "fetchTrainTimetable u h station l =
           (Inr (JArr []),
            lr @ [Fetched (predictionUrl h code), Fetched (predictionUrl h together)])"
  using assms
  by (simp add: fetchTrainTimetable_def stationTimetable_def mergeMulti_def tryCatch_def
      andThen_def fetchJson_def lift_def ret_def)

lemma bus_feed_failure:
  assumes "feed h l (busPredictionUrl h (sanitizedStopId stop)) = Inl e"
  shows "fetchBusTimetable u h stop l =
           (Inr (JArr []), l @ [Fetched (busPredictionUrl h (sanitizedStopId stop))])"
  using assms
  by (simp add: fetchBusTimetable_def tryCatch_def andThen_def fetchJson_def ret_def)

text \<open>
  C5, as the code has it. None of the three functions ends in an exception: each
  returns a value, whatever the feeds and the helpers do. A failure of the incident
  feed is caught in \<^verbatim>\<open>fetchIncidents\<close>, which returns the empty array. In a rail
  query, whose incident fetch comes once the station is resolved and its predictions
  are filtered (one platform or two), the run then goes on:
  \<^verbatim>\<open>getRelevantIncidents\<close> is called with the line codes and the empty array, and
  the result is the timetable with the station name, the predictions and what the
  helper returns, or the empty array when the helper throws. A failure of the station
  feed, of the prediction feed of the station's platform, of the prediction feed of
  its second platform or of the bus prediction feed is caught by the handler around
  the whole function: the result is the empty array, and the run ends with the fetch
  that failed.
\<close>

theorem failures_are_caught:
  "(\<exists>v. fst (fetchIncidents h transport l) = Inr v) \<and>
   (\<exists>v. fst (fetchTrainTimetable u h station l) = Inr v) \<and>
   (\<exists>v. fst (fetchBusTimetable u h stop l) = Inr v) \<and>
   (feed h l (incidentsUrl h transport) = Inl e \<longrightarrow>
      fetchIncidents h transport l = (Inr (JArr []), l @ [Fetched (incidentsUrl h transport)])) \<and>
   (feed h l (stationsUrl h) = Inr stations \<and>
    resolveStation u station stations (l @ [Fetched (stationsUrl h)]) = (Inr stationData, lr) \<and>
    truthy stationData \<and>
    stationPredictions u h stationData lr = (Inr predictions, lp) \<and>
    feed h lp (incidentsUrl h (serviceTypeEnum_TRAIN u)) = Inl e \<longrightarrow>
      (\<exists>lines name.
         lineCodes stationData = Inr lines \<and>
         getProp stationData ''Name'' = Inr name \<and>
         fetchTrainTimetable u h station l =
           (case getRelevantIncidents u (JArr lines) (JArr []) of
              Inl e' \<Rightarrow> Inr (JArr [])
            | Inr incidents \<Rightarrow>
                Inr (JObj [(''stationName'', name), (''predictions'', predictions),
                           (''incidents'', incidents)]),
            lp @ [Fetched (incidentsUrl h (serviceTypeEnum_TRAIN u)),
                  Called ''getRelevantIncidents'' [JArr lines, JArr []]]))) \<and>
   (feed h l (stationsUrl h) = Inl e \<longrightarrow>
      fetchTrainTimetable u h station l = (Inr (JArr []), l @ [Fetched (stationsUrl h)])) \<and>
   (feed h l (stationsUrl h) = Inr stations \<and>
    resolveStation u station stations (l @ [Fetched (stationsUrl h)]) = (Inr stationData, lr) \<and>
    truthy stationData \<and>
    getProp stationData ''Code'' = Inr code \<and>
    feed h lr (predictionUrl h code) = Inl e \<longrightarrow>
      fetchTrainTimetable u h station l =
        (Inr (JArr []), lr @ [Fetched (predictionUrl h code)])) \<and>
   (feed h l (stationsUrl h) = Inr stations \<and>
    resolveStation u station stations (l @ [Fetched (stationsUrl h)]) = (Inr stationData, lr) \<and>
    truthy stationData \<and>
    getProp stationData ''Code'' = Inr code \<and>
    feed h lr (predictionUrl h code) = Inr predictionObj \<and>
    getProp stationData ''StationTogether1'' = Inr together \<and>
    truthy together \<and>
    feed h (lr @ [Fetched (predictionUrl h code)]) (predictionUrl h together) = Inl e \<longrightarrow>
      fetchTrainTimetable u h station l =
        (Inr (JArr []),
         lr @ [Fetched (predictionUrl h code), Fetched (predictionUrl h together)])) \<and>
   (feed h l (busPredictionUrl h (sanitizedStopId stop)) = Inl e \<longrightarrow>
      fetchBusTimetable u h stop l =
        (Inr (JArr []), l @ [Fetched (busPredictionUrl h (sanitizedStopId stop))]))"
proof (intro conjI impI)
  show "\<exists>v. fst (fetchIncidents h transport l) = Inr v"
    by (simp add: fetchIncidents_run)
  show "\<exists>v. fst (fetchTrainTimetable u h station l) = Inr v"
    unfolding fetchTrainTimetable_def by (rule tryCatch_returns)
  show "\<exists>v. fst (fetchBusTimetable u h stop l) = Inr v"
    unfolding fetchBusTimetable_def by (rule tryCatch_returns)
next
  assume "feed h l (incidentsUrl h transport) = Inl e"
  then show "fetchIncidents h transport l =
      (Inr (JArr []), l @ [Fetched (incidentsUrl h transport)])"
    by (simp add: fetchIncidents_run)
next
  assume a: "feed h l (stationsUrl h) = Inr stations \<and>
    resolveStation u station stations (l @ [Fetched (stationsUrl h)]) = (Inr stationData, lr) \<and>
    truthy stationData \<and>
    stationPredictions u h stationData lr = (Inr predictions, lp) \<and>
    feed h lp (incidentsUrl h (serviceTypeEnum_TRAIN u)) = Inl e"
  then have t: "truthy stationData" by simp
  from truthy_lineCodes [OF t] obtain lines where lines: "lineCodes stationData = Inr lines"
    by blast
  from truthy_getProp [OF t] obtain name where name: "getProp stationData ''Name'' = Inr name"
    by blast
  from a have "fetchTrainTimetable u h station l =
           (case getRelevantIncidents u (JArr lines) (JArr []) of
              Inl e' \<Rightarrow> Inr (JArr [])
            | Inr incidents \<Rightarrow>
                Inr (JObj [(''stationName'', name), (''predictions'', predictions),
                           (''incidents'', incidents)]),
            lp @ [Fetched (incidentsUrl h (serviceTypeEnum_TRAIN u)),
                  Called ''getRelevantIncidents'' [JArr lines, JArr []]])"
    by (elim conjE) (rule incident_feed_failure [OF _ _ _ _ _ lines name])
  with lines name show "\<exists>lines name.
         lineCodes stationData = Inr lines \<and>
         getProp stationData ''Name'' = Inr name \<and>
         fetchTrainTimetable u h station l =
           (case getRelevantIncidents u (JArr lines) (JArr []) of
              Inl e' \<Rightarrow> Inr (JArr [])
            | Inr incidents \<Rightarrow>
                Inr (JObj [(''stationName'', name), (''predictions'', predictions),
                           (''incidents'', incidents)]),
            lp @ [Fetched (incidentsUrl h (serviceTypeEnum_TRAIN u)),
                  Called ''getRelevantIncidents'' [JArr lines, JArr []]])"
    by blast
next
  assume "feed h l (stationsUrl h) = Inl e"
  then show "fetchTrainTimetable u h station l = (Inr (JArr []), l @ [Fetched (stationsUrl h)])"
    by (rule station_feed_failure)
next
  assume "feed h l (stationsUrl h) = Inr stations \<and>
    resolveStation u station stations (l @ [Fetched (stationsUrl h)]) = (Inr stationData, lr) \<and>
    truthy stationData \<and>
    getProp stationData ''Code'' = Inr code \<and>
    feed h lr (predictionUrl h code) = Inl e"
  then show "fetchTrainTimetable u h station l =
        (Inr (JArr []), lr @ [Fetched (predictionUrl h code)])"
    by (elim conjE) (rule prediction_feed_failure)
next
  assume "feed h l (stationsUrl h) = Inr stations \<and>
    resolveStation u station stations (l @ [Fetched (stationsUrl h)]) = (Inr stationData, lr) \<and>
    truthy stationData \<and>
    getProp stationData ''Code'' = Inr code \<and>
    feed h lr (predictionUrl h code) = Inr predictionObj \<and>
    getProp stationData ''StationTogether1'' = Inr together \<and>
    truthy together \<and>
    feed h (lr @ [Fetched (predictionUrl h code)]) (predictionUrl h together) = Inl e"
  then show "fetchTrainTimetable u h station l =
        (Inr (JArr []),
         lr @ [Fetched (predictionUrl h code), Fetched (predictionUrl h together)])"
    by (elim conjE) (rule second_prediction_feed_failure)
next
  assume "feed h l (busPredictionUrl h (sanitizedStopId stop)) = Inl e"
  then show "fetchBusTimetable u h stop l =
        (Inr (JArr []), l @ [Fetched (busPredictionUrl h (sanitizedStopId stop))])"
    by (rule bus_feed_failure)
qed

lemma metroCenter_resolved:
  "resolveStation exampleUtil ''Metro Center'' (JArr [metroCenter])
     ([] @ [Fetched (stationsUrl (tableHost table))]) =
   (Inr metroCenter,
    [Fetched stationsAt,
     Called ''stationPartialSearch''
       [JStr (toLowerCase ''Metro Center''), JArr [metroCenter]]])"
  by (simp add: resolve_by_partial exampleUtil_simps metroCenter_found metroCenter_props
      tableHost_urls)

lemma fortTotten_props:
  "truthy fortTotten"
  "getProp fortTotten ''Code'' = Inr (JStr ''B06'')"
  "getProp fortTotten ''StationTogether1'' = Inr (JStr ''E06'')"
  by (simp_all add: fortTotten_def)

lemma fortTotten_resolved:
  "resolveStation exampleUtil ''Fort Totten'' (JArr [fortTotten])
     ([] @ [Fetched (stationsUrl (tableHost table))]) =
   (Inr fortTotten,
    [Fetched stationsAt,
     Called ''stationPartialSearch''
       [JStr (toLowerCase ''Fort Totten''), JArr [fortTotten]]])"
proof -
  have "partialSearch (JStr (toLowerCase ''Fort Totten'')) (JArr [fortTotten]) = Inr fortTotten"
    by (simp add: partialSearch_def nameMatches_def fortTotten_def lower_simps)
  then show ?thesis
    by (simp add: resolve_by_partial exampleUtil_simps fortTotten_props tableHost_urls)
qed

theorem failures_are_caught_witness:
  "feed (tableHost [(stationsAt, Inr (JArr [metroCenter])),
                    (predictionAt ''A01'',
                     Inr (JObj [(''Trains'', JArr [train ''RD'' ''Glenmont'' ''5''])]))])
     [] incidentsAt = Inl FetchError \<and>
   fetchIncidents
     (tableHost [(stationsAt, Inr (JArr [metroCenter])),
                 (predictionAt ''A01'',
                  Inr (JObj [(''Trains'', JArr [train ''RD'' ''Glenmont'' ''5''])]))])
     ''train'' [] = (Inr (JArr []), [Fetched incidentsAt]) \<and>
   fetchTrainTimetable exampleUtil
     (tableHost [(stationsAt, Inr (JArr [metroCenter])),
                 (predictionAt ''A01'',
                  Inr (JObj [(''Trains'', JArr [train ''RD'' ''Glenmont'' ''5''])]))])
     ''Metro Center'' [] =
     (Inr (JObj [(''stationName'', JStr ''Metro Center''),
                 (''predictions'', JArr [train ''RD'' ''Glenmont'' ''5'']),
                 (''incidents'', JArr [])]),
      [Fetched stationsAt,
       Called ''stationPartialSearch'' [JStr (toLowerCase ''Metro Center''), JArr [metroCenter]],
       Fetched (predictionAt ''A01''),
       Fetched incidentsAt,
       Called ''getRelevantIncidents'' [JArr [JStr ''RD'', JUndefined], JArr []]]) \<and>
   fetchTrainTimetable exampleUtil (tableHost []) ''Metro Center'' [] =
     (Inr (JArr []), [Fetched stationsAt]) \<and>
   fetchTrainTimetable exampleUtil
     (tableHost [(stationsAt, Inr (JArr [fortTotten])),
                 (predictionAt ''B06'',
                  Inr (JObj [(''Trains'', JArr [train ''RD'' ''Glenmont'' ''5''])])),
                 (incidentsAt, Inr (JArr []))])
     ''Fort Totten'' [] =
     (Inr (JArr []),
      [Fetched stationsAt,
       Called ''stationPartialSearch'' [JStr (toLowerCase ''Fort Totten''), JArr [fortTotten]],
       Fetched (predictionAt ''B06''),
       Fetched (predictionAt ''E06'')])"
proof -
  let ?obj = "JObj [(''Trains'', JArr [train ''RD'' ''Glenmont'' ''5''])]"
  let ?h = "tableHost [(stationsAt, Inr (JArr [metroCenter])), (predictionAt ''A01'', Inr ?obj)]"
  let ?lr = "[Fetched stationsAt,
     Called ''stationPartialSearch''
       [JStr (toLowerCase ''Metro Center''), JArr [metroCenter]]]"
  let ?lp = "?lr @ [Fetched (predictionAt ''A01'')]"
  have inc: "feed ?h k (incidentsUrl ?h ''train'') = Inl FetchError" for k
    by (simp add: tableHost_feed tableHost_urls url_simps)
  have f1: "feed ?h [] (stationsUrl ?h) = Inr (JArr [metroCenter])"
    by (simp add: tableHost_feed tableHost_urls)
  have f2: "feed ?h ?lr (predictionAt ''A01'') = Inr ?obj"
    by (simp add: tableHost_feed url_simps)
  have p: "predictionData (JArr [train ''RD'' ''Glenmont'' ''5'']) =
             Inr (JArr [train ''RD'' ''Glenmont'' ''5''])"
    by (simp add: predictionData_def arrayFilter_def keepPrediction_def bindE_def train_def)
  have sp: "stationPredictions exampleUtil ?h metroCenter ?lr =
      (Inr (JArr [train ''RD'' ''Glenmont'' ''5'']), ?lp)"
    by (simp add: stationPredictions_def andThen_def lift_def fetchJson_def metroCenter_props
        tableHost_urls f2 p)
  have f0: "feed (tableHost []) [] (stationsUrl (tableHost [])) = Inl FetchError"
    by (simp add: tableHost_feed)
  note T = failures_are_caught [where h = ?h and transport = "''train''" and l = "[]"
      and e = FetchError and u = exampleUtil and station = "''Metro Center''"
      and lr = ?lr and lp = ?lp and stations = "JArr [metroCenter]"
      and stationData = metroCenter and predictions = "JArr [train ''RD'' ''Glenmont'' ''5'']"]
  note S = failures_are_caught [where h = "tableHost []" and l = "[]" and e = FetchError
      and u = exampleUtil and station = "''Metro Center''"]
  have a: "fetchIncidents ?h ''train'' [] = (Inr (JArr []), [Fetched incidentsAt])"
    using T inc by (simp add: tableHost_urls)
  have b: "fetchTrainTimetable exampleUtil ?h ''Metro Center'' [] =
     (Inr (JObj [(''stationName'', JStr ''Metro Center''),
                 (''predictions'', JArr [train ''RD'' ''Glenmont'' ''5'']),
                 (''incidents'', JArr [])]),
      ?lp @ [Fetched incidentsAt,
             Called ''getRelevantIncidents'' [JArr [JStr ''RD'', JUndefined], JArr []]])"
    using T inc f1 sp metroCenter_resolved [of "[(stationsAt, Inr (JArr [metroCenter])),
        (predictionAt ''A01'', Inr ?obj)]"]
    by (simp add: metroCenter_props exampleUtil_simps tableHost_urls)
  have c: "fetchTrainTimetable exampleUtil (tableHost []) ''Metro Center'' [] =
     (Inr (JArr []), [Fetched stationsAt])"
    using S f0 by (simp add: tableHost_urls)
  let ?g = "tableHost [(stationsAt, Inr (JArr [fortTotten])),
                 (predictionAt ''B06'', Inr ?obj), (incidentsAt, Inr (JArr []))]"
  let ?gr = "[Fetched stationsAt,
     Called ''stationPartialSearch''
       [JStr (toLowerCase ''Fort Totten''), JArr [fortTotten]]]"
  have g1: "feed ?g [] (stationsUrl ?g) = Inr (JArr [fortTotten])"
    by (simp add: tableHost_feed tableHost_urls)
  have g2: "feed ?g ?gr (predictionUrl ?g (JStr ''B06'')) = Inr ?obj"
    by (simp add: tableHost_feed tableHost_urls url_simps)
  have g3: "feed ?g (?gr @ [Fetched (predictionUrl ?g (JStr ''B06''))])
              (predictionUrl ?g (JStr ''E06'')) = Inl FetchError"
    by (simp add: tableHost_feed tableHost_urls url_simps)
  note P = failures_are_caught [where h = ?g and l = "[]" and e = FetchError
      and u = exampleUtil and station = "''Fort Totten''" and lr = ?gr
      and stations = "JArr [fortTotten]" and stationData = fortTotten
      and code = "JStr ''B06''" and predictionObj = ?obj and together = "JStr ''E06''"]
  have d: "fetchTrainTimetable exampleUtil ?g ''Fort Totten'' [] =
     (Inr (JArr []), ?gr @ [Fetched (predictionAt ''B06''), Fetched (predictionAt ''E06'')])"
    using P g1 g2 g3 fortTotten_resolved [of "[(stationsAt, Inr (JArr [fortTotten])),
        (predictionAt ''B06'', Inr ?obj), (incidentsAt, Inr (JArr []))]"]
    by (simp add: fortTotten_props tableHost_urls)
  from inc [of "[]"] a b c d show ?thesis
    by (simp add: tableHost_urls)
qed

text \<open>
  C5, as the claim has it, fails on the specification's station when the prediction
  feed fails while the station feed and the incident feed answer: the failure is not
  turned into an empty list of predictions inside a timetable. The whole result is the
  empty array, and the run ends with the failed fetch, before any incident fetch.
\<close>

theorem prediction_failure_counterexample:
  "feed (tableHost [(stationsAt, Inr (JArr [metroCenter])), (incidentsAt, Inr (JArr []))])
     [Fetched stationsAt,
      Called ''stationPartialSearch'' [JStr (toLowerCase ''Metro Center''), JArr [metroCenter]]]
     (predictionAt ''A01'') = Inl FetchError \<and>
   fetchTrainTimetable exampleUtil
     (tableHost [(stationsAt, Inr (JArr [metroCenter])), (incidentsAt, Inr (JArr []))])
     ''Metro Center'' [] =
     (Inr (JArr []),
      [Fetched stationsAt,
       Called ''stationPartialSearch'' [JStr (toLowerCase ''Metro Center''), JArr [metroCenter]],
       Fetched (predictionAt ''A01'')]) \<and>
   fst (fetchTrainTimetable exampleUtil
     (tableHost [(stationsAt, Inr (JArr [metroCenter])), (incidentsAt, Inr (JArr []))])
     ''Metro Center'' []) \<noteq>
     Inr (JObj [(''stationName'', JStr ''Metro Center''), (''predictions'', JArr []),
                (''incidents'', JArr [])])"
proof -
  let ?h = "tableHost [(stationsAt, Inr (JArr [metroCenter])), (incidentsAt, Inr (JArr []))]"
  have f1: "feed ?h [] (stationsUrl ?h) = Inr (JArr [metroCenter])"
    by (simp add: tableHost_feed tableHost_urls)
  have f2: "feed ?h l (predictionUrl ?h (JStr ''A01'')) = Inl FetchError" for l
    by (simp add: tableHost_feed tableHost_urls url_simps)
  from prediction_feed_failure [OF f1 metroCenter_resolved metroCenter_props(1,2) f2] f2
  show ?thesis
    by (simp add: tableHost_urls)
qed

section \<open>The order of the two searches\<close>

lemma resolveStation_run:
  "resolveStation u station stations l =
     (case stationPartialSearch u (JStr (toLowerCase station)) stations of
        Inl e \<Rightarrow>
          (Inl e, l @ [Called ''stationPartialSearch'' [JStr (toLowerCase station), stations]])
      | Inr v \<Rightarrow>
          if truthy v
          then (Inr v,
                l @ [Called ''stationPartialSearch'' [JStr (toLowerCase station), stations]])
          else (stationFuzzySearch u (JStr (toLowerCase station)) stations,
                l @ [Called ''stationPartialSearch'' [JStr (toLowerCase station), stations],
                     Called ''stationFuzzySearch'' [JStr (toLowerCase station), stations]]))"
  by (simp add: resolveStation_def Let_def andThen_def callUtil_def ret_def split: sum.split)

lemma includesStr_sublist: "includesStr s t \<longleftrightarrow> sublist t s"
  by (induction s) (simp_all add: sublist_Cons_right)

lemma nameMatches_object:
  assumes "nameMatches query station"
  shows "truthy station"
  using assms by (cases station) (simp_all add: nameMatches_def)

lemma partialSearch_finds:
  assumes "s \<in> set records" and "nameMatches query s"
  obtains found where "found \<in> set records" and "nameMatches query found"
    and "partialSearch (JStr query) (JArr records) = Inr found"
proof -
  from assms have "find (nameMatches query) records \<noteq> None"
    by (auto simp: find_None_iff)
  then obtain found where f: "find (nameMatches query) records = Some found"
    by blast
  then have "found \<in> set records" and "nameMatches query found"
    by (auto simp: find_Some_iff)
  moreover from f have "partialSearch (JStr query) (JArr records) = Inr found"
    by (simp add: partialSearch_def)
  ultimately show thesis by (rule that)
qed

text \<open>
  C7: the resolver of \<^verbatim>\<open>fetchTrainTimetable\<close> (lines 54-59) calls
  \<^verbatim>\<open>stationPartialSearch\<close> first, whatever the two helpers are, and it calls
  \<^verbatim>\<open>stationFuzzySearch\<close> exactly when the partial search returned a falsy value.
  With the partial search of the specification, a query whose lower-cased form occurs
  in the lower-cased name of some station of the list, or the other way round, is
  resolved to a station that the partial search found, and the partial search is the
  only call.
\<close>

theorem partial_search_is_tried_first:
  "(\<exists>rest. snd (resolveStation u station stations l) =
      l @ Called ''stationPartialSearch'' [JStr (toLowerCase station), stations] # rest) \<and>
   (Called ''stationFuzzySearch'' [JStr (toLowerCase station), stations]
      \<in> set (drop (length l) (snd (resolveStation u station stations l))) \<longleftrightarrow>
    (\<exists>v. stationPartialSearch u (JStr (toLowerCase station)) stations = Inr v \<and> \<not> truthy v)) \<and>
   (stationPartialSearch u = partialSearch \<and> s \<in> set records \<and>
    getProp s ''Name'' = Inr (JStr name) \<and>
    (sublist (toLowerCase station) (toLowerCase name) \<or>
     sublist (toLowerCase name) (toLowerCase station)) \<longrightarrow>
      (\<exists>found. found \<in> set records \<and>
         partialSearch (JStr (toLowerCase station)) (JArr records) = Inr found \<and>
         resolveStation u station (JArr records) l =
           (Inr found,
            l @ [Called ''stationPartialSearch''
                   [JStr (toLowerCase station), JArr records]])))"
proof (intro conjI impI)
  show "\<exists>rest. snd (resolveStation u station stations l) =
      l @ Called ''stationPartialSearch'' [JStr (toLowerCase station), stations] # rest"
    by (simp add: resolveStation_run split: sum.split)
  show "Called ''stationFuzzySearch'' [JStr (toLowerCase station), stations]
      \<in> set (drop (length l) (snd (resolveStation u station stations l))) \<longleftrightarrow>
    (\<exists>v. stationPartialSearch u (JStr (toLowerCase station)) stations = Inr v \<and> \<not> truthy v)"
    by (simp add: resolveStation_run split: sum.split)
next
  assume a: "stationPartialSearch u = partialSearch \<and> s \<in> set records \<and>
    getProp s ''Name'' = Inr (JStr name) \<and>
    (sublist (toLowerCase station) (toLowerCase name) \<or>
     sublist (toLowerCase name) (toLowerCase station))"
  then have "nameMatches (toLowerCase station) s"
    by (auto simp: nameMatches_def includesStr_sublist)
  with a obtain found where f: "found \<in> set records"
    and m: "nameMatches (toLowerCase station) found"
    and p: "partialSearch (JStr (toLowerCase station)) (JArr records) = Inr found"
    by (blast elim: partialSearch_finds)
  from a p nameMatches_object [OF m]
  have "resolveStation u station (JArr records) l =
           (Inr found,
            l @ [Called ''stationPartialSearch''
                   [JStr (toLowerCase station), JArr records]])"
    by (simp add: resolveStation_run)
  with f p show "\<exists>found. found \<in> set records \<and>
         partialSearch (JStr (toLowerCase station)) (JArr records) = Inr found \<and>
         resolveStation u station (JArr records) l =
           (Inr found,
            l @ [Called ''stationPartialSearch''
                   [JStr (toLowerCase station), JArr records]])"
    by blast
qed

theorem partial_search_is_tried_first_witness:
  "resolveStation exampleUtil ''Metro'' (JArr [fortTotten, metroCenter]) [] =
     (Inr metroCenter,
      [Called ''stationPartialSearch'' [JStr ''metro'', JArr [fortTotten, metroCenter]]]) \<and>
   sublist ''metro'' (toLowerCase ''Metro Center'') \<and>
   Called ''stationFuzzySearch'' [JStr ''zzzz'', JArr [fortTotten, metroCenter]]
     \<in> set (snd (resolveStation exampleUtil ''Zzzz'' (JArr [fortTotten, metroCenter]) []))"
proof -
  let ?records = "[fortTotten, metroCenter]"
  have low: "toLowerCase ''Metro'' = ''metro''" "toLowerCase ''Zzzz'' = ''zzzz''"
    "toLowerCase ''Metro Center'' = ''metro center''"
    by (simp_all add: lower_simps)
  have sub: "sublist ''metro'' (toLowerCase ''Metro Center'')"
    unfolding low includesStr_sublist [symmetric] by simp
  have p: "partialSearch (JStr ''metro'') (JArr ?records) = Inr metroCenter"
    by (simp add: partialSearch_def nameMatches_def metroCenter_def fortTotten_def
        lower_simps)
  have q: "partialSearch (JStr ''zzzz'') (JArr ?records) = Inr JUndefined"
    by (simp add: partialSearch_def nameMatches_def metroCenter_def fortTotten_def
        lower_simps)
  note T = partial_search_is_tried_first [where u = exampleUtil and station = "''Metro''"
      and records = ?records and s = metroCenter and name = "''Metro Center''"
      and l = "[]"]
  have "\<exists>found. found \<in> set ?records \<and>
         partialSearch (JStr (toLowerCase ''Metro'')) (JArr ?records) = Inr found \<and>
         resolveStation exampleUtil ''Metro'' (JArr ?records) [] =
           (Inr found,
            [] @ [Called ''stationPartialSearch''
                   [JStr (toLowerCase ''Metro''), JArr ?records]])"
    using T sub by (simp add: exampleUtil_simps metroCenter_props low)
  with p have a: "resolveStation exampleUtil ''Metro'' (JArr ?records) [] =
     (Inr metroCenter, [Called ''stationPartialSearch'' [JStr ''metro'', JArr ?records]])"
    by (auto simp: low)
  note S = partial_search_is_tried_first [where u = exampleUtil and station = "''Zzzz''"
      and stations = "JArr ?records" and l = "[]"]
  have b: "Called ''stationFuzzySearch'' [JStr ''zzzz'', JArr ?records]
     \<in> set (snd (resolveStation exampleUtil ''Zzzz'' (JArr ?records) []))"
    using S q by (simp add: exampleUtil_simps low)
  from a sub b show ?thesis by simp
qed

section \<open>The incident filter of the specification\<close>

lemma splitOn_not_Nil: "splitOn d s \<noteq> []"
  by (induction s) (simp_all split: list.split)

lemma splitOn_token:
  assumes "d \<notin> set c"
  shows "splitOn d (c @ d # rest) = c # splitOn d rest"
  using assms by (induction c) auto

lemma splitOn_single:
  assumes "d \<notin> set c"
  shows "splitOn d c = [c]"
  using assms by (induction c) auto

lemma splitOn_joinWith:
  assumes "cs \<noteq> []" and "\<forall>c\<in>set cs. d \<notin> set c"
  shows "splitOn d (joinWith [d] cs) = cs"
  using assms
proof (induction "[d]" cs rule: joinWith.induct)
  case 1
  then show ?case by simp
next
  case (2 x)
  then show ?case by (simp add: splitOn_single)
next
  case (3 x y ys)
  then show ?case by (simp add: splitOn_token)
qed

lemma anyRequested_iff: "anyRequested ids ts \<longleftrightarrow> set ts \<inter> set ids \<noteq> {}"
  by (induction ts) auto

lemma relevant_filter:
  "relevant d ids incidents =
     filter (\<lambda>i. set (splitOn d (linesAffected i)) \<inter> set ids \<noteq> {}) incidents"
  by (induction incidents) (simp_all add: anyRequested_iff)

text \<open>
  C8: the incident filter of the specification returns exactly the incidents whose
  affected-lines field has a token among the requested identifiers, as a subsequence of
  the feed, so in the order of the feed; for no identifier it returns no incident. The
  tokens of a field are the codes it was joined from: splitting the join of a non-empty
  list of codes, none of which holds the delimiter, gives the list back.
\<close>

theorem relevant_is_the_matching_subsequence:
  "relevant d ids incidents =
     filter (\<lambda>i. set (splitOn d (linesAffected i)) \<inter> set ids \<noteq> {}) incidents \<and>
   subseq (relevant d ids incidents) incidents \<and>
   relevant d [] incidents = [] \<and>
   (cs \<noteq> [] \<and> (\<forall>c\<in>set cs. d \<notin> set c) \<longrightarrow> splitOn d (joinWith [d] cs) = cs)"
proof (intro conjI impI)
  show "relevant d ids incidents =
     filter (\<lambda>i. set (splitOn d (linesAffected i)) \<inter> set ids \<noteq> {}) incidents"
    by (rule relevant_filter)
  show "subseq (relevant d ids incidents) incidents"
    by (simp add: relevant_filter)
  show "relevant d [] incidents = []"
    by (simp add: relevant_filter)
next
  assume "cs \<noteq> [] \<and> (\<forall>c\<in>set cs. d \<notin> set c)"
  then show "splitOn d (joinWith [d] cs) = cs"
    by (simp add: splitOn_joinWith)
qed

theorem relevant_is_the_matching_subsequence_witness:
  "relevant (CHR '','') [''RD'', ''BL'']
     [\<lparr>linesAffected = ''RD,OR'', description = ''single tracking''\<rparr>,
      \<lparr>linesAffected = ''GR'', description = ''delays''\<rparr>,
      \<lparr>linesAffected = ''YL,BL'', description = ''disabled train''\<rparr>] =
     [\<lparr>linesAffected = ''RD,OR'', description = ''single tracking''\<rparr>,
      \<lparr>linesAffected = ''YL,BL'', description = ''disabled train''\<rparr>] \<and>
   relevant (CHR '','') []
     [\<lparr>linesAffected = ''RD,OR'', description = ''single tracking''\<rparr>] = [] \<and>
   splitOn (CHR '','') (joinWith '','' [''RD'', ''OR'']) = [''RD'', ''OR'']"
proof -
  note T = relevant_is_the_matching_subsequence [where d = "CHR '',''"
      and cs = "[''RD'', ''OR'']"]
  have a: "splitOn (CHR '','') (joinWith '','' [''RD'', ''OR'']) = [''RD'', ''OR'']"
    using T by simp
  from T [where ids = "[''RD'', ''BL'']"] T [where ids = "[]"] a show ?thesis
    by simp
qed

section \<open>A station with two platforms\<close>

text \<open>
  For comparison with the station of one platform, a station with a second platform:
  the two lists are concatenated, sorted by \<^verbatim>\<open>sortPredictions\<close> and then filtered.
\<close>

lemma two_platforms_run:
  "fst (fetchTrainTimetable exampleUtil
      (tableHost [(stationsAt, Inr (JArr [fortTotten, metroCenter])),
                  (predictionAt ''B06'',
                   Inr (JObj [(''Trains'',
                     JArr [train ''RD'' ''Glenmont'' ''5'', train ''No'' ''No Passenger'' ''BRD''])])),
                  (predictionAt ''E06'',
                   Inr (JObj [(''Trains'',
                     JArr [train ''GR'' ''Greenbelt'' ''3'', train ''YL'' ''Huntington'' ''ARR''])])),
                  (incidentsAt, Inr (JArr []))])
      ''Fort Totten'' []) =
    Inr (JObj [(''stationName'', JStr ''Fort Totten''),
               (''predictions'',
                JArr [train ''YL'' ''Huntington'' ''ARR'', train ''GR'' ''Greenbelt'' ''3'',
                      train ''RD'' ''Glenmont'' ''5'']),
               (''incidents'', JArr [])])"
proof -
  let ?h = "tableHost [(stationsAt, Inr (JArr [fortTotten, metroCenter])),
                  (predictionAt ''B06'',
                   Inr (JObj [(''Trains'',
                     JArr [train ''RD'' ''Glenmont'' ''5'', train ''No'' ''No Passenger'' ''BRD''])])),
                  (predictionAt ''E06'',
                   Inr (JObj [(''Trains'',
                     JArr [train ''GR'' ''Greenbelt'' ''3'', train ''YL'' ''Huntington'' ''ARR''])])),
                  (incidentsAt, Inr (JArr []))]"
  have found: "partialSearch (JStr (toLowerCase ''Fort Totten'')) (JArr [fortTotten, metroCenter])
      = Inr fortTotten"
    by (simp add: partialSearch_def nameMatches_def fortTotten_def lower_simps)
  have props: "truthy fortTotten" "getProp fortTotten ''Code'' = Inr (JStr ''B06'')"
    "getProp fortTotten ''StationTogether1'' = Inr (JStr ''E06'')"
    "getProp fortTotten ''Name'' = Inr (JStr ''Fort Totten'')"
    "lineCodes fortTotten = Inr [JStr ''RD'']"
    by (simp_all add: fortTotten_def lineCodes_object)
  have r: "resolveStation exampleUtil ''Fort Totten'' (JArr [fortTotten, metroCenter]) l =
      (Inr fortTotten,
       l @ [Called ''stationPartialSearch''
              [JStr (toLowerCase ''Fort Totten''), JArr [fortTotten, metroCenter]]])" for l
    by (simp add: resolve_by_partial exampleUtil_simps found props)
  have feeds: "feed ?h l stationsAt = Inr (JArr [fortTotten, metroCenter])"
    "feed ?h l (predictionAt ''B06'') = Inr (JObj [(''Trains'',
        JArr [train ''RD'' ''Glenmont'' ''5'', train ''No'' ''No Passenger'' ''BRD''])])"
    "feed ?h l (predictionAt ''E06'') = Inr (JObj [(''Trains'',
        JArr [train ''GR'' ''Greenbelt'' ''3'', train ''YL'' ''Huntington'' ''ARR''])])"
    "feed ?h l incidentsAt = Inr (JArr [])" for l
    by (simp_all add: tableHost_feed url_simps)
  have ranks: "minutesRank ''Min'' (train ''RD'' ''Glenmont'' ''5'') = 8"
    "minutesRank ''Min'' (train ''No'' ''No Passenger'' ''BRD'') = 0"
    "minutesRank ''Min'' (train ''GR'' ''Greenbelt'' ''3'') = 6"
    "minutesRank ''Min'' (train ''YL'' ''Huntington'' ''ARR'') = 1"
    by (simp_all add: minutesRank_def train_def nonDigit_def)
  have s: "sortSpec ''Min''
      (JArr [train ''RD'' ''Glenmont'' ''5'', train ''No'' ''No Passenger'' ''BRD'',
             train ''GR'' ''Greenbelt'' ''3'', train ''YL'' ''Huntington'' ''ARR'']) =
      Inr (JArr [train ''No'' ''No Passenger'' ''BRD'', train ''YL'' ''Huntington'' ''ARR'',
                 train ''GR'' ''Greenbelt'' ''3'', train ''RD'' ''Glenmont'' ''5''])"
    by (simp add: sortSpec_def ranks)
  have p: "predictionData
      (JArr [train ''No'' ''No Passenger'' ''BRD'', train ''YL'' ''Huntington'' ''ARR'',
             train ''GR'' ''Greenbelt'' ''3'', train ''RD'' ''Glenmont'' ''5'']) =
      Inr (JArr [train ''YL'' ''Huntington'' ''ARR'', train ''GR'' ''Greenbelt'' ''3'',
                 train ''RD'' ''Glenmont'' ''5''])"
    by (simp add: predictionData_def arrayFilter_def keepPrediction_def bindE_def train_def)
  show ?thesis
    by (simp add: fetchTrainTimetable_def stationTimetable_def mergeMulti_def tryCatch_def
        andThen_def fetchJson_def lift_def ret_def callUtil_def fetchIncidents_run
        tableHost_urls feeds r props concatJs_def exampleUtil_simps s p)
qed

end
